theory Spec2Isabelle
  imports Complex_Main "HOL-Library.Sublist"
begin

section \<open>Python values\<close>

text \<open>
  The relay handles values produced by \<^verbatim>\<open>json.loads\<close>: \<^verbatim>\<open>None\<close>, booleans, integers,
  floats, strings, lists and dicts. A dict is an association list read with \<open>map_of\<close>.
  A character of a \<open>string\<close> stands for one code point below 256.
\<close>

datatype pyfloat = Finite rat | Infinite bool | NaN

datatype json =
    JNull
  | JBool bool
  | JInt int
  | JFloat pyfloat
  | JStr string
  | JArr "json list"
  | JObj "(string \<times> json) list"

text \<open>Truth value of a Python object, as \<^verbatim>\<open>not x\<close> and \<^verbatim>\<open>x or y\<close> test it.\<close>

fun truthy :: "json \<Rightarrow> bool" where
  "truthy JNull = False"
| "truthy (JBool b) = b"
| "truthy (JInt n) = (n \<noteq> 0)"
| "truthy (JFloat f) = (f \<noteq> Finite 0)"
| "truthy (JStr s) = (s \<noteq> [])"
| "truthy (JArr xs) = (xs \<noteq> [])"
| "truthy (JObj kvs) = (kvs \<noteq> [])"

text \<open>
  Exceptions. \<open>HTTPError code body\<close> carries the status code and what
  \<^verbatim>\<open>e.read().decode()\<close> yields: \<open>None\<close> when the bytes do not decode, where
  \<^verbatim>\<open>decode\<close> raises \<^verbatim>\<open>UnicodeDecodeError\<close>. \<open>URLError reason\<close> carries the reason as
  the f-string prints it, \<open>JSONDecodeError m\<close> the text \<^verbatim>\<open>str(e)\<close>.
\<close>

datatype py_exn =
    HTTPError nat "string option"
  | URLError string
  | JSONDecodeError string
  | KeyError json
  | IndexError
  | TypeError
  | AttributeError
  | UnicodeDecodeError
  | OtherError string

definition and_then :: "'e + 'a \<Rightarrow> ('a \<Rightarrow> 'e + 'b) \<Rightarrow> 'e + 'b" where
  "and_then r f = (case r of Inl e \<Rightarrow> Inl e | Inr v \<Rightarrow> f v)"

text \<open>\<^verbatim>\<open>d.get(k, default)\<close>: only a dict has the method.\<close>

fun dict_get :: "json \<Rightarrow> string \<Rightarrow> json \<Rightarrow> py_exn + json" where
  "dict_get (JObj kvs) k d = Inr (case map_of kvs k of None \<Rightarrow> d | Some v \<Rightarrow> v)"
| "dict_get _ k d = Inl AttributeError"

text \<open>\<^verbatim>\<open>x[k]\<close> with a string key and \<^verbatim>\<open>x[0]\<close>.\<close>

fun getitem_key :: "json \<Rightarrow> string \<Rightarrow> py_exn + json" where
  "getitem_key (JObj kvs) k =
     (case map_of kvs k of None \<Rightarrow> Inl (KeyError (JStr k)) | Some v \<Rightarrow> Inr v)"
| "getitem_key _ k = Inl TypeError"

fun getitem_0 :: "json \<Rightarrow> py_exn + json" where
  "getitem_0 (JArr xs) = (case xs of [] \<Rightarrow> Inl IndexError | x # _ \<Rightarrow> Inr x)"
| "getitem_0 (JStr s) = (case s of [] \<Rightarrow> Inl IndexError | c # _ \<Rightarrow> Inr (JStr [c]))"
| "getitem_0 (JObj kvs) = Inl (KeyError (JInt 0))"
| "getitem_0 _ = Inl TypeError"

section \<open>String operations\<close>

text \<open>
  \<^verbatim>\<open>s.replace(old, new)\<close>: occurrences of \<open>old\<close> are found from the left and do not
  overlap. With an empty \<open>old\<close>, \<open>new\<close> goes before every character and at the end.
\<close>

function py_replace :: "string \<Rightarrow> string \<Rightarrow> string \<Rightarrow> string" where
  "py_replace old new s =
     (if old = [] then new @ concat (map (\<lambda>c. c # new) s)
      else if s = [] then []
      else if prefix old s then new @ py_replace old new (drop (length old) s)
      else hd s # py_replace old new (tl s))"
  by pat_completeness auto
termination
  by (relation "measure (\<lambda>(old, new, s). length s)") auto

declare py_replace.simps [simp del]

text \<open>\<^verbatim>\<open>str.isspace\<close> on code points below 256, and \<^verbatim>\<open>s.strip()\<close>.\<close>

definition is_space :: "char \<Rightarrow> bool" where
  "is_space c =
     (let n = (of_char c :: nat)
      in (9 \<le> n \<and> n \<le> 13) \<or> (28 \<le> n \<and> n \<le> 32) \<or> n = 133 \<or> n = 160)"

definition strip :: "string \<Rightarrow> string" where
  "strip s = rev (dropWhile is_space (rev (dropWhile is_space s)))"

text \<open>\<^verbatim>\<open>text.replace("```json", "").replace("```", "").strip()\<close>\<close>

definition normalize :: "string \<Rightarrow> string" where
  "normalize text = strip (py_replace ''```'' [] (py_replace ''```json'' [] text))"

section \<open>The relay\<close>

text \<open>
  What the relay does not define itself is a parameter: the environment variable
  \<^verbatim>\<open>GEMINI_API_KEY\<close>, \<^verbatim>\<open>json.loads\<close> (\<open>Inl\<close> is the exception it raises),
  \<^verbatim>\<open>urllib.request.urlopen\<close> (\<open>Inr\<close> is the text that \<^verbatim>\<open>response.read()\<close> returns),
  \<^verbatim>\<open>str\<close> of a value that is not a string, and \<^verbatim>\<open>str\<close> of an exception.
\<close>

record http_request =
  url :: string
  data :: json
  headers :: "(string \<times> string) list"
  http_method :: string
  timeout :: nat

record response =
  status_code :: nat
  json_body :: "json option"

record world =
  environ_key :: "string option"
  json_loads :: "string \<Rightarrow> py_exn + json"
  urlopen :: "http_request \<Rightarrow> py_exn + string"
  str_value :: "json \<Rightarrow> string"
  exception_text :: "py_exn \<Rightarrow> string"

text \<open>A value inside an f-string, and \<^verbatim>\<open>str(e)\<close>.\<close>

fun fstr :: "world \<Rightarrow> json \<Rightarrow> string" where
  "fstr w (JStr s) = s"
| "fstr w v = str_value w v"

fun str_of_exn :: "world \<Rightarrow> py_exn \<Rightarrow> string" where
  "str_of_exn w (JSONDecodeError m) = m"
| "str_of_exn w e = exception_text w e"

definition GEMINI_MODEL :: string where
  "GEMINI_MODEL = ''gemini-2.5-flash-preview-04-17''"

definition PROMPT :: string where
  \<open>PROMPT =
     ''You are a data extraction assistant. Extract ALL product entries from this '' @
     ''Quality Control Pre-Dispatched Product Report image.\<newline>\<newline>'' @
     ''For EACH product row in the table extract:\<newline>'' @
     ''- variety: product name + weight (e.g. "Rolled Oats 800gm")\<newline>'' @
     ''- batch_code\<newline>'' @
     ''- mfg_date\<newline>'' @
     ''- expiry_date\<newline>'' @
     ''- mrp (number only)\<newline>'' @
     ''- defects_status (Yes or No)\<newline>'' @
     ''- total_dispatch_ctn (number)\<newline>'' @
     ''- party_name (if visible)\<newline>\<newline>'' @
     ''Return ONLY a raw JSON array. No markdown, no backticks, no extra text. Example:\<newline>'' @
     ''[{"variety":"Rolled Oats 800gm","batch_code":"AK19K26R800D","mfg_date":"26-11-2025",'' @
     ''"expiry_date":"25-11-2026","mrp":"405","defects_status":"No","total_dispatch_ctn":"5",'' @
     ''"party_name":"Dautal Trading"}]\<newline>\<newline>'' @
     ''Use empty string "" for any field not visible.''\<close>

text \<open>
  The dict \<^verbatim>\<open>gemini_payload\<close>; the two files differ in \<^verbatim>\<open>maxOutputTokens\<close> only.
\<close>

definition gemini_payload :: "json \<Rightarrow> json \<Rightarrow> int \<Rightarrow> json" where
  "gemini_payload mime_type image_b64 max_output_tokens =
     JObj [(''contents'', JArr [JObj [(''parts'', JArr
               [JObj [(''inline_data'', JObj [(''mime_type'', mime_type), (''data'', image_b64)])],
                JObj [(''text'', JStr PROMPT)]])]]),
           (''generationConfig'', JObj [(''temperature'', JFloat (Finite (1 / 10))),
                                       (''maxOutputTokens'', JInt max_output_tokens)])]"

text \<open>\<^verbatim>\<open>jsonify({"error": message}), code\<close> in app.py, \<^verbatim>\<open>self._error(code, message)\<close> in server.py.\<close>

definition error_response :: "nat \<Rightarrow> string \<Rightarrow> response" where
  "error_response code message =
     \<lparr>status_code = code, json_body = Some (JObj [(''error'', JStr message)])\<rparr>"

definition rows_response :: "json \<Rightarrow> response" where
  "rows_response rows = \<lparr>status_code = 200, json_body = Some (JObj [(''rows'', rows)])\<rparr>"

text \<open>\<^verbatim>\<open>result["candidates"][0]["content"]["parts"][0]["text"]\<close>\<close>

definition extract_text :: "json \<Rightarrow> py_exn + json" where
  "extract_text result =
     and_then (getitem_key result ''candidates'') (\<lambda>a.
     and_then (getitem_0 a) (\<lambda>b.
     and_then (getitem_key b ''content'') (\<lambda>c.
     and_then (getitem_key c ''parts'') (\<lambda>d.
     and_then (getitem_0 d) (\<lambda>e.
     getitem_key e ''text'')))))"

text \<open>The method \<^verbatim>\<open>replace\<close> exists on a string only.\<close>

fun clean_text :: "json \<Rightarrow> py_exn + string" where
  "clean_text (JStr text) = Inr (normalize text)"
| "clean_text _ = Inl AttributeError"

text \<open>\<^verbatim>\<open>if not isinstance(rows, list): rows = [rows]\<close>\<close>

fun as_list :: "json \<Rightarrow> json" where
  "as_list (JArr xs) = JArr xs"
| "as_list v = JArr [v]"

text \<open>The body of the \<^verbatim>\<open>with\<close> block, the same in both files, up to the rows.\<close>

definition read_rows :: "world \<Rightarrow> string \<Rightarrow> py_exn + json" where
  "read_rows w raw =
     and_then (json_loads w raw) (\<lambda>result.
     and_then (extract_text result) (\<lambda>text.
     and_then (clean_text text) (\<lambda>clean.
     and_then (json_loads w clean) (\<lambda>rows.
     Inr (as_list rows)))))"

text \<open>
  The message in the \<^verbatim>\<open>HTTPError\<close> handler:
  \<^verbatim>\<open>json.loads(err_body).get("error", {}).get("message", err_body)\<close>, and \<open>err_body\<close>
  when that raises.
\<close>

definition upstream_message :: "world \<Rightarrow> string \<Rightarrow> json" where
  "upstream_message w err_body =
     (case and_then (json_loads w err_body) (\<lambda>j.
           and_then (dict_get j ''error'' (JObj [])) (\<lambda>e.
           dict_get e ''message'' (JStr err_body)))
      of Inl _ \<Rightarrow> JStr err_body | Inr msg \<Rightarrow> msg)"

subsection \<open>app.py\<close>

text \<open>\<^verbatim>\<open>os.environ.get("GEMINI_API_KEY") or payload.get("apiKey", "")\<close>\<close>

definition app_api_key :: "world \<Rightarrow> json \<Rightarrow> py_exn + json" where
  "app_api_key w payload =
     (case environ_key w of
        None \<Rightarrow> dict_get payload ''apiKey'' (JStr [])
      | Some k \<Rightarrow> if k \<noteq> [] then Inr (JStr k) else dict_get payload ''apiKey'' (JStr []))"

definition app_request :: "world \<Rightarrow> json \<Rightarrow> json \<Rightarrow> json \<Rightarrow> http_request" where
  "app_request w api_key image_b64 mime_type =
     \<lparr>url = ''https://generativelanguage.googleapis.com/v1beta/models/'' @ GEMINI_MODEL
              @ '':generateContent?key='' @ fstr w api_key,
      data = gemini_payload mime_type image_b64 4096,
      headers = [(''Content-Type'', ''application/json'')],
      http_method = ''POST'',
      timeout = 120\<rparr>"

text \<open>
  The \<^verbatim>\<open>try\<close> block of \<^verbatim>\<open>gemini_proxy\<close>. The argument is what \<^verbatim>\<open>request.get_json()\<close>
  does; the result is the response returned or the exception raised, with the requests
  passed to \<^verbatim>\<open>urlopen\<close>.
\<close>

definition gemini_proxy_try ::
  "world \<Rightarrow> py_exn + json \<Rightarrow> (py_exn + response) \<times> http_request list" where
  "gemini_proxy_try w got =
     (case got of Inl e \<Rightarrow> (Inl e, []) | Inr payload \<Rightarrow>
      if \<not> truthy payload then (Inr (error_response 400 ''Invalid JSON body''), [])
      else case app_api_key w payload of Inl e \<Rightarrow> (Inl e, []) | Inr api_key \<Rightarrow>
      case dict_get payload ''imageB64'' (JStr []) of Inl e \<Rightarrow> (Inl e, []) | Inr image_b64 \<Rightarrow>
      case dict_get payload ''mimeType'' (JStr ''image/jpeg'') of Inl e \<Rightarrow> (Inl e, [])
      | Inr mime_type \<Rightarrow>
      if \<not> truthy api_key then
        (Inr (error_response 400
           ''Gemini API key not configured. Set GEMINI_API_KEY environment variable on Render.''), [])
      else if \<not> truthy image_b64 then (Inr (error_response 400 ''No image data received''), [])
      else let req = app_request w api_key image_b64 mime_type in
        (case and_then (urlopen w req) (read_rows w) of
           Inl e \<Rightarrow> (Inl e, [req])
         | Inr rows \<Rightarrow> (Inr (rows_response rows), [req])))"

text \<open>
  The \<^verbatim>\<open>except\<close> clauses of \<^verbatim>\<open>gemini_proxy\<close>, in their order. An exception raised
  inside a clause leaves the function.
\<close>

fun gemini_proxy_except :: "world \<Rightarrow> py_exn \<Rightarrow> py_exn + response" where
  "gemini_proxy_except w (HTTPError code body) =
     (case body of
        None \<Rightarrow> Inl UnicodeDecodeError
      | Some err_body \<Rightarrow>
          Inr (error_response code (''Gemini API error: '' @ fstr w (upstream_message w err_body))))"
| "gemini_proxy_except w (URLError reason) =
     Inr (error_response 502 (''Could not reach Gemini API: '' @ reason))"
| "gemini_proxy_except w (JSONDecodeError m) =
     Inr (error_response 500 (''Failed to parse Gemini response: '' @ str_of_exn w (JSONDecodeError m)))"
| "gemini_proxy_except w (KeyError k) =
     Inr (error_response 500 (''Failed to parse Gemini response: '' @ str_of_exn w (KeyError k)))"
| "gemini_proxy_except w IndexError =
     Inr (error_response 500 (''Failed to parse Gemini response: '' @ str_of_exn w IndexError))"
| "gemini_proxy_except w e = Inr (error_response 500 (str_of_exn w e))"

definition gemini_proxy ::
  "world \<Rightarrow> py_exn + json \<Rightarrow> (py_exn + response) \<times> http_request list" where
  "gemini_proxy w got =
     (case gemini_proxy_try w got of
        (Inr r, calls) \<Rightarrow> (Inr r, calls)
      | (Inl e, calls) \<Rightarrow> (gemini_proxy_except w e, calls))"

subsection \<open>server.py\<close>

definition server_request :: "world \<Rightarrow> json \<Rightarrow> json \<Rightarrow> json \<Rightarrow> http_request" where
  "server_request w api_key image_b64 mime_type =
     \<lparr>url = ''https://generativelanguage.googleapis.com/v1beta/models/gemini-2.5-flash:generateContent?key=''
              @ fstr w api_key,
      data = gemini_payload mime_type image_b64 2048,
      headers = [(''Content-Type'', ''application/json'')],
      http_method = ''POST'',
      timeout = 60\<rparr>"

text \<open>
  The \<^verbatim>\<open>except\<close> clauses of the inner \<^verbatim>\<open>try\<close> of \<^verbatim>\<open>do_POST\<close>; \<open>Inl\<close> is an
  exception that reaches the outer \<^verbatim>\<open>try\<close>.
\<close>

fun do_POST_except :: "world \<Rightarrow> py_exn \<Rightarrow> py_exn + response" where
  "do_POST_except w (HTTPError code body) =
     (case body of
        None \<Rightarrow> Inl UnicodeDecodeError
      | Some err_body \<Rightarrow>
          Inr (error_response code (''Gemini API error: '' @ fstr w (upstream_message w err_body))))"
| "do_POST_except w (URLError reason) =
     Inr (error_response 502 (''Could not reach Gemini API: '' @ reason))"
| "do_POST_except w (JSONDecodeError m) =
     Inr (error_response 500 (''Failed to parse Gemini response: '' @ str_of_exn w (JSONDecodeError m)))"
| "do_POST_except w (KeyError k) =
     Inr (error_response 500 (''Failed to parse Gemini response: '' @ str_of_exn w (KeyError k)))"
| "do_POST_except w IndexError =
     Inr (error_response 500 (''Failed to parse Gemini response: '' @ str_of_exn w IndexError))"
| "do_POST_except w e = Inl e"

text \<open>
  The outer \<^verbatim>\<open>try\<close> block of \<^verbatim>\<open>do_POST\<close>. The argument is what reading the request
  body (\<^verbatim>\<open>Content-Length\<close>, \<^verbatim>\<open>rfile.read\<close>) does.
\<close>

definition do_POST_try ::
  "world \<Rightarrow> py_exn + string \<Rightarrow> (py_exn + response) \<times> http_request list" where
  "do_POST_try w got =
     (case and_then got (json_loads w) of Inl e \<Rightarrow> (Inl e, []) | Inr payload \<Rightarrow>
      case dict_get payload ''apiKey'' (JStr []) of Inl e \<Rightarrow> (Inl e, []) | Inr api_key \<Rightarrow>
      case dict_get payload ''imageB64'' (JStr []) of Inl e \<Rightarrow> (Inl e, []) | Inr image_b64 \<Rightarrow>
      case dict_get payload ''mimeType'' (JStr ''image/jpeg'') of Inl e \<Rightarrow> (Inl e, [])
      | Inr mime_type \<Rightarrow>
      if \<not> truthy api_key then (Inr (error_response 400 ''Missing apiKey''), [])
      else if \<not> truthy image_b64 then (Inr (error_response 400 ''Missing imageB64''), [])
      else let req = server_request w api_key image_b64 mime_type in
        (case and_then (urlopen w req) (read_rows w) of
           Inl e \<Rightarrow> (do_POST_except w e, [req])
         | Inr rows \<Rightarrow> (Inr (rows_response rows), [req])))"

definition do_POST :: "world \<Rightarrow> string \<Rightarrow> py_exn + string \<Rightarrow> response \<times> http_request list" where
  "do_POST w path got =
     (if path = ''/api/gemini'' then
        (case do_POST_try w got of
           (Inr r, calls) \<Rightarrow> (r, calls)
         | (Inl e, calls) \<Rightarrow> (error_response 500 (str_of_exn w e), calls))
      else (\<lparr>status_code = 404, json_body = None\<rparr>, []))"

section \<open>Reading a request, reading a response\<close>

text \<open>
  \<open>app_reads w payload api_key image_b64 mime_type\<close>: these are the three values that
  \<^verbatim>\<open>gemini_proxy\<close> reads for the payload; \<open>server_reads\<close> is the same for \<^verbatim>\<open>do_POST\<close> and
  the text of the request body.
\<close>

definition app_reads :: "world \<Rightarrow> json \<Rightarrow> json \<Rightarrow> json \<Rightarrow> json \<Rightarrow> bool" where
  "app_reads w payload api_key image_b64 mime_type \<longleftrightarrow>
     app_api_key w payload = Inr api_key \<and>
     dict_get payload ''imageB64'' (JStr []) = Inr image_b64 \<and>
     dict_get payload ''mimeType'' (JStr ''image/jpeg'') = Inr mime_type"

definition server_reads :: "world \<Rightarrow> string \<Rightarrow> json \<Rightarrow> json \<Rightarrow> json \<Rightarrow> bool" where
  "server_reads w body api_key image_b64 mime_type \<longleftrightarrow>
     (case json_loads w body of
        Inl e \<Rightarrow> False
      | Inr payload \<Rightarrow>
          dict_get payload ''apiKey'' (JStr []) = Inr api_key \<and>
          dict_get payload ''imageB64'' (JStr []) = Inr image_b64 \<and>
          dict_get payload ''mimeType'' (JStr ''image/jpeg'') = Inr mime_type)"

text \<open>Both preconditions hold: the credential and the image data read are non-empty.\<close>

definition app_valid :: "world \<Rightarrow> json \<Rightarrow> json \<Rightarrow> json \<Rightarrow> json \<Rightarrow> bool" where
  "app_valid w payload api_key image_b64 mime_type \<longleftrightarrow>
     app_reads w payload api_key image_b64 mime_type \<and> truthy api_key \<and> truthy image_b64"

definition server_valid :: "world \<Rightarrow> string \<Rightarrow> json \<Rightarrow> json \<Rightarrow> json \<Rightarrow> bool" where
  "server_valid w body api_key image_b64 mime_type \<longleftrightarrow>
     server_reads w body api_key image_b64 mime_type \<and> truthy api_key \<and> truthy image_b64"

text \<open>The value of the field \<^verbatim>\<open>rows\<close> of a response, when it has one.\<close>

definition rows_of :: "response \<Rightarrow> json option" where
  "rows_of r = (case json_body r of Some (JObj kvs) \<Rightarrow> map_of kvs ''rows'' | _ \<Rightarrow> None)"

text \<open>The response envelope with a given first text part, and a text between fences.\<close>

definition envelope :: "json \<Rightarrow> json" where
  "envelope t =
     JObj [(''candidates'', JArr [JObj [(''content'', JObj [(''parts'', JArr [JObj [(''text'', t)]])])]])]"

definition fenced :: "string \<Rightarrow> string" where
  "fenced s = ''```json'' @ CHR 0x0A # s @ CHR 0x0A # ''```''"

section \<open>Texts with fence markers, payloads with an image\<close>






text \<open>
  What a reader of the upstream payload finds at
  \<^verbatim>\<open>payload["contents"][0]["parts"][0]["inline_data"]\<close>, and there under \<^verbatim>\<open>mime_type\<close>
  and under \<^verbatim>\<open>data\<close>.
\<close>

definition inline_data :: "json \<Rightarrow> py_exn + json" where
  "inline_data payload =
     and_then (getitem_key payload ''contents'') (\<lambda>a.
     and_then (getitem_0 a) (\<lambda>b.
     and_then (getitem_key b ''parts'') (\<lambda>c.
     and_then (getitem_0 c) (\<lambda>d.
     getitem_key d ''inline_data''))))"

definition inline_mime_type :: "json \<Rightarrow> py_exn + json" where
  "inline_mime_type payload = and_then (inline_data payload) (\<lambda>d. getitem_key d ''mime_type'')"

definition inline_image :: "json \<Rightarrow> py_exn + json" where
  "inline_image payload = and_then (inline_data payload) (\<lambda>d. getitem_key d ''data'')"

section \<open>Sample inputs\<close>

text \<open>
  A request, and what \<^verbatim>\<open>json.loads\<close> returns on the texts used in the examples below;
  \<open>envelope_text t\<close> is the JSON text of an envelope whose text part is written \<open>t\<close>
  in JSON. The sample rejects every other text.
\<close>

definition sample_payload :: json where
  "sample_payload = JObj [(''apiKey'', JStr ''REQKEY''), (''imageB64'', JStr ''AAAA'')]"

definition sample_body :: string where
  \<open>sample_body = ''{"apiKey":"REQKEY","imageB64":"AAAA"}''\<close>

definition envelope_text :: "string \<Rightarrow> string" where
  \<open>envelope_text t = ''{"candidates":[{"content":{"parts":[{"text":"'' @ t @ ''"}]}}]}''\<close>

definition sample_table :: "(string \<times> (py_exn + json)) list" where
  \<open>sample_table =
     [(sample_body, Inr sample_payload),
      (''{"apiKey":"REQKEY"}'', Inr (JObj [(''apiKey'', JStr ''REQKEY'')])),
      (''{}'', Inr (JObj [])),
      (envelope_text (''```json'' @ [CHR 0x5C, CHR ''n''] @ ''[1, 2]'' @ [CHR 0x5C, CHR ''n''] @ ''```''),
         Inr (envelope (JStr (fenced ''[1, 2]'')))),
      (''[1, 2]'', Inr (JArr [JInt 1, JInt 2])),
      (envelope_text (''```json'' @ [CHR 0x5C, CHR ''n''] @ ''['' @ [CHR 0x5C, CHR 0x22] @ ''```''
           @ [CHR 0x5C, CHR 0x22] @ '']'' @ [CHR 0x5C, CHR ''n''] @ ''```''),
         Inr (envelope (JStr (fenced ''["```"]'')))),
      (''["```"]'', Inr (JArr [JStr ''```''])),
      (''[""]'', Inr (JArr [JStr []])),
      (envelope_text '' [1, 2] '', Inr (envelope (JStr '' [1, 2] ''))),
      (envelope_text (''{'' @ [CHR 0x5C, CHR 0x22] @ ''mrp'' @ [CHR 0x5C, CHR 0x22] @ '':''
           @ [CHR 0x5C, CHR 0x22] @ ''405'' @ [CHR 0x5C, CHR 0x22] @ ''}''),
         Inr (envelope (JStr ''{"mrp":"405"}''))),
      (''{"mrp":"405"}'', Inr (JObj [(''mrp'', JStr ''405'')])),
      (envelope_text ''5'', Inr (envelope (JStr ''5''))),
      (''5'', Inr (JInt 5)),
      (envelope_text ''hello'', Inr (envelope (JStr ''hello''))),
      (''hello'', Inl (JSONDecodeError ''Expecting value: line 1 column 1 (char 0)'')),
      (''{"error":{"message":"rate limited"}}'',
         Inr (JObj [(''error'', JObj [(''message'', JStr ''rate limited'')])])),
      (''null'', Inr JNull),
      (''{"imageB64":"AAAA"}'', Inr (JObj [(''imageB64'', JStr ''AAAA'')]))]\<close>

definition sample_loads :: "string \<Rightarrow> py_exn + json" where
  "sample_loads s =
     (case map_of sample_table s of
        Some r \<Rightarrow> r
      | None \<Rightarrow> Inl (JSONDecodeError ''Expecting value: line 1 column 1 (char 0)''))"

text \<open>
  A world with a given \<^verbatim>\<open>GEMINI_API_KEY\<close> in which the upstream call has a given outcome.
\<close>

definition sample_world :: "string option \<Rightarrow> py_exn + string \<Rightarrow> world" where
  "sample_world key outcome =
     \<lparr>environ_key = key, json_loads = sample_loads, urlopen = (\<lambda>req. outcome),
      str_value = (\<lambda>v. ''value''), exception_text = (\<lambda>e. ''exception'')\<rparr>"

section \<open>Properties of the string operations\<close>

lemma py_replace_Nil: "old \<noteq> [] \<Longrightarrow> py_replace old new [] = []"
  by (simp add: py_replace.simps)

lemma py_replace_match:
  "old \<noteq> [] \<Longrightarrow> py_replace old new (old @ s) = new @ py_replace old new s"
  by (subst py_replace.simps) simp

lemma py_replace_skip:
  "old \<noteq> [] \<Longrightarrow> \<not> prefix old (c # cs) \<Longrightarrow>
     py_replace old new (c # cs) = c # py_replace old new cs"
  by (subst py_replace.simps) simp

lemma py_replace_absent:
  "old \<noteq> [] \<Longrightarrow> \<not> sublist old s \<Longrightarrow> py_replace old new s = s"
proof (induction s)
  case Nil
  then show ?case by (simp add: py_replace_Nil)
next
  case (Cons c cs)
  from Cons.prems have np: "\<not> prefix old (c # cs)" and ns: "\<not> sublist old cs"
    by (auto simp: sublist_Cons_right)
  with Cons show ?case by (simp add: py_replace_skip)
qed


lemma strip_sublist: "sublist (strip s) s"
proof -
  have "sublist (dropWhile is_space (rev (dropWhile is_space s))) (rev (dropWhile is_space s))"
    by (rule sublist_dropWhile)
  then have "sublist (strip s) (dropWhile is_space s)"
    unfolding strip_def by (simp add: sublist_rev_left)
  moreover have "sublist (dropWhile is_space s) s" by (rule sublist_dropWhile)
  ultimately show ?thesis by (rule sublist_order.order.trans)
qed

lemma dropWhile_last: "dropWhile P xs \<noteq> [] \<Longrightarrow> last (dropWhile P xs) = last xs"
  by (induction xs) (auto split: if_splits)

lemma dropWhile_hd_keep: "xs \<noteq> [] \<Longrightarrow> \<not> P (hd xs) \<Longrightarrow> dropWhile P xs = xs"
  by (cases xs) auto

lemma dropWhile_rev_nonempty: "dropWhile P (rev xs) \<noteq> [] \<Longrightarrow> xs \<noteq> []"
  by auto

lemma strip_fixed:
  "s = [] \<or> (\<not> is_space (hd s) \<and> \<not> is_space (last s)) \<Longrightarrow> strip s = s"
proof (cases s)
  case Nil
  then show ?thesis by (simp add: strip_def)
next
  case (Cons c cs)
  assume "s = [] \<or> (\<not> is_space (hd s) \<and> \<not> is_space (last s))"
  with Cons have h: "\<not> is_space c" and l: "\<not> is_space (last s)" by auto
  from h Cons have d: "dropWhile is_space s = s" by simp
  have "rev s \<noteq> []" using Cons by simp
  then have "hd (rev s) = last s" by (simp add: hd_rev)
  with l \<open>rev s \<noteq> []\<close> have "dropWhile is_space (rev s) = rev s"
    by (intro dropWhile_hd_keep) simp_all
  with d show ?thesis by (simp add: strip_def)
qed

lemma strip_ends: "strip s = [] \<or> (\<not> is_space (hd (strip s)) \<and> \<not> is_space (last (strip s)))"
proof (cases "strip s = []")
  case True
  then show ?thesis by simp
next
  case False
  let ?a = "dropWhile is_space s"
  let ?b = "dropWhile is_space (rev ?a)"
  have b: "?b \<noteq> []" using False by (simp add: strip_def)
  have a: "?a \<noteq> []" using b by (rule dropWhile_rev_nonempty)
  have "last (strip s) = hd ?b" unfolding strip_def using b by (simp add: last_rev)
  moreover have "\<not> is_space (hd ?b)" using b by (rule hd_dropWhile)
  moreover have "hd (strip s) = last ?b" unfolding strip_def using b by (simp add: hd_rev)
  moreover have "last ?b = last (rev ?a)" using b by (rule dropWhile_last)
  moreover have "last (rev ?a) = hd ?a" using a by (simp add: last_rev)
  moreover have "\<not> is_space (hd ?a)" using a by (rule hd_dropWhile)
  ultimately show ?thesis by simp
qed

lemma strip_idem: "strip (strip s) = strip s"
  by (rule strip_fixed) (rule strip_ends)

lemma replaced_starts_tick:
  "prefix ''`'' (py_replace ''```'' [] s) \<Longrightarrow> prefix ''`'' s"
proof (cases s)
  case Nil
  assume "prefix ''`'' (py_replace ''```'' [] s)"
  with Nil show ?thesis by (simp add: py_replace_Nil)
next
  case (Cons c cs)
  assume a: "prefix ''`'' (py_replace ''```'' [] s)"
  show ?thesis
  proof (cases "prefix ''```'' s")
    case True
    with Cons show ?thesis by simp
  next
    case False
    with Cons a show ?thesis by (simp add: py_replace_skip)
  qed
qed

lemma replaced_starts_two_ticks:
  "prefix ''``'' (py_replace ''```'' [] s) \<Longrightarrow> prefix ''``'' s"
proof (cases s)
  case Nil
  assume "prefix ''``'' (py_replace ''```'' [] s)"
  with Nil show ?thesis by (simp add: py_replace_Nil)
next
  case (Cons c cs)
  assume a: "prefix ''``'' (py_replace ''```'' [] s)"
  show ?thesis
  proof (cases "prefix ''```'' s")
    case True
    then have "prefix (''``'' @ ''`'') s" by simp
    then show ?thesis by (rule append_prefixD)
  next
    case False
    with Cons a have c: "c = CHR ''`''" and "prefix ''`'' (py_replace ''```'' [] cs)"
      by (auto simp: py_replace_skip)
    then have "prefix ''`'' cs" by (simp add: replaced_starts_tick)
    with c Cons show ?thesis by auto
  qed
qed

lemma replaced_no_fence: "\<not> sublist ''```'' (py_replace ''```'' [] s)"
proof (induction s rule: length_induct)
  case (1 s)
  show ?case
  proof (cases s)
    case Nil
    then show ?thesis by (simp add: py_replace_Nil)
  next
    case (Cons c cs)
    show ?thesis
    proof (cases "prefix ''```'' s")
      case True
      then obtain r where r: "s = ''```'' @ r" by (auto simp: prefix_def)
      with 1 have "\<not> sublist ''```'' (py_replace ''```'' [] r)" by simp
      moreover have "py_replace ''```'' [] (''```'' @ r) = [] @ py_replace ''```'' [] r"
        by (rule py_replace_match) simp
      ultimately show ?thesis unfolding r by (metis append_Nil)
    next
      case False
      from 1 Cons have ih: "\<not> sublist ''```'' (py_replace ''```'' [] cs)" by simp
      have "\<not> prefix ''```'' (c # py_replace ''```'' [] cs)"
      proof
        assume p: "prefix ''```'' (c # py_replace ''```'' [] cs)"
        then have c: "c = CHR ''`''" and "prefix ''``'' (py_replace ''```'' [] cs)" by auto
        then have "prefix ''``'' cs" by (simp add: replaced_starts_two_ticks)
        with c Cons False show False by auto
      qed
      with ih False Cons show ?thesis by (simp add: py_replace_skip sublist_Cons_right)
    qed
  qed
qed

lemma fence_in_fence_json: "sublist ''```'' ''```json''"
  by (rule prefix_imp_sublist) simp

lemma no_fence_no_fence_json: "\<not> sublist ''```'' s \<Longrightarrow> \<not> sublist ''```json'' s"
  using fence_in_fence_json sublist_order.order.trans by blast

lemma normalize_no_fence: "\<not> sublist ''```'' (normalize t)"
proof
  assume "sublist ''```'' (normalize t)"
  moreover have "sublist (normalize t) (py_replace ''```'' [] (py_replace ''```json'' [] t))"
    unfolding normalize_def by (rule strip_sublist)
  ultimately have "sublist ''```'' (py_replace ''```'' [] (py_replace ''```json'' [] t))"
    by (rule sublist_order.order.trans)
  then show False by (simp add: replaced_no_fence)
qed

lemma normalize_clean: "\<not> sublist ''```'' t \<Longrightarrow> normalize t = strip t"
  by (simp add: normalize_def py_replace_absent no_fence_no_fence_json)

lemma normalize_idem: "normalize (normalize t) = normalize t"
proof -
  have "normalize (normalize t) = strip (normalize t)"
    by (rule normalize_clean) (rule normalize_no_fence)
  also have "\<dots> = normalize t" unfolding normalize_def by (rule strip_idem)
  finally show ?thesis .
qed


lemma no_prefix_before_newline:
  "\<not> prefix ''```'' (c # cs) \<Longrightarrow> \<not> prefix ''```'' (c # cs @ CHR 0x0A # r)"
  by (cases cs; cases "tl cs") auto

lemma replace_fence_tail:
  "\<not> sublist ''```'' s \<Longrightarrow> py_replace ''```'' [] (s @ CHR 0x0A # ''```'') = s @ [CHR 0x0A]"
proof (induction s)
  case Nil
  have "py_replace ''```'' [] (CHR 0x0A # ''```'' @ []) = CHR 0x0A # py_replace ''```'' [] (''```'' @ [])"
    by (rule py_replace_skip) simp_all
  also have "py_replace ''```'' [] (''```'' @ []) = [] @ py_replace ''```'' [] []"
    by (rule py_replace_match) simp
  finally show ?case by (simp add: py_replace_Nil)
next
  case (Cons c cs)
  then have np: "\<not> prefix ''```'' (c # cs)" and ns: "\<not> sublist ''```'' cs"
    by (auto simp: sublist_Cons_right)
  from np have "\<not> prefix ''```'' (c # cs @ CHR 0x0A # ''```'')" by (rule no_prefix_before_newline)
  then have "py_replace ''```'' [] (c # cs @ CHR 0x0A # ''```'') = c # py_replace ''```'' [] (cs @ CHR 0x0A # ''```'')"
    by (intro py_replace_skip) simp_all
  with Cons.IH ns show ?case by simp
qed

lemma no_fence_json_tail:
  "\<not> sublist ''```'' s \<Longrightarrow> \<not> sublist ''```json'' (s @ CHR 0x0A # ''```'')"
proof (induction s)
  case Nil
  show ?case by (simp add: sublist_Cons_right)
next
  case (Cons c cs)
  then have np: "\<not> prefix ''```'' (c # cs)" and ns: "\<not> sublist ''```'' cs"
    by (auto simp: sublist_Cons_right)
  from np have "\<not> prefix ''```'' (c # cs @ CHR 0x0A # ''```'')" by (rule no_prefix_before_newline)
  moreover have "\<not> prefix ''```json'' (c # cs @ CHR 0x0A # ''```'')"
  proof
    assume "prefix ''```json'' (c # cs @ CHR 0x0A # ''```'')"
    then have "prefix (''```'' @ ''json'') (c # cs @ CHR 0x0A # ''```'')"
      by (simp only: append.simps)
    then have "prefix ''```'' (c # cs @ CHR 0x0A # ''```'')" by (rule append_prefixD)
    with \<open>\<not> prefix ''```'' (c # cs @ CHR 0x0A # ''```'')\<close> show False by blast
  qed
  ultimately show ?case using Cons.IH ns by (simp add: sublist_Cons_right)
qed

lemma normalize_fenced:
  assumes nf: "\<not> sublist ''```'' s" and ne: "s \<noteq> []"
    and h: "\<not> is_space (hd s)" and l: "\<not> is_space (last s)"
  shows "normalize (''```json'' @ CHR 0x0A # s @ CHR 0x0A # ''```'') = s"
proof -
  let ?tail = "s @ CHR 0x0A # ''```''"
  have nj: "\<not> sublist ''```json'' (CHR 0x0A # ?tail)"
    using no_fence_json_tail [OF nf] by (simp add: sublist_Cons_right)
  have "py_replace ''```json'' [] (''```json'' @ CHR 0x0A # ?tail) = [] @ py_replace ''```json'' [] (CHR 0x0A # ?tail)"
    by (rule py_replace_match) simp
  also have "\<dots> = CHR 0x0A # ?tail" using nj by (simp add: py_replace_absent)
  finally have one: "py_replace ''```json'' [] (''```json'' @ CHR 0x0A # ?tail) = CHR 0x0A # ?tail" .
  have "py_replace ''```'' [] (CHR 0x0A # ?tail) = CHR 0x0A # py_replace ''```'' [] ?tail"
    by (rule py_replace_skip) simp_all
  with replace_fence_tail [OF nf]
  have two: "py_replace ''```'' [] (CHR 0x0A # ?tail) = CHR 0x0A # s @ [CHR 0x0A]" by simp
  have sp: "is_space (CHR 0x0A)" by (simp add: is_space_def)
  have d1: "dropWhile is_space (CHR 0x0A # s @ [CHR 0x0A]) = s @ [CHR 0x0A]"
    using sp ne h by (cases s) simp_all
  have "rev s \<noteq> []" "hd (rev s) = last s" using ne by (simp_all add: hd_rev)
  with l have "dropWhile is_space (rev s) = rev s" by (intro dropWhile_hd_keep) simp_all
  with sp have d2: "dropWhile is_space (rev (s @ [CHR 0x0A])) = rev s" by simp
  have "strip (CHR 0x0A # s @ [CHR 0x0A]) = s"
    unfolding strip_def by (simp only: d1 d2 rev_rev_ident)
  with one two show ?thesis by (simp only: normalize_def)
qed







section \<open>Properties of the handlers\<close>

lemma and_then_Inr [simp]: "and_then (Inr v) f = f v"
  by (simp add: and_then_def)

lemma and_then_Inl [simp]: "and_then (Inl e) f = Inl e"
  by (simp add: and_then_def)

lemma dict_get_Inr: "dict_get p k d = Inr v \<Longrightarrow> \<exists>kvs. p = JObj kvs"
  by (cases p) simp_all

lemma app_reads_truthy: "app_reads w p k i m \<Longrightarrow> truthy i \<Longrightarrow> truthy p"
  by (cases p) (auto simp: app_reads_def split: option.splits)

lemma app_accepted:
  assumes "app_valid w p k i m"
  shows "gemini_proxy w (Inr p) =
           (case and_then (urlopen w (app_request w k i m)) (read_rows w) of
              Inl e \<Rightarrow> gemini_proxy_except w e
            | Inr rows \<Rightarrow> Inr (rows_response rows),
            [app_request w k i m])"
proof -
  from assms have r: "app_reads w p k i m" and t: "truthy k" "truthy i"
    by (simp_all add: app_valid_def)
  then have "truthy p" by (blast intro: app_reads_truthy)
  with r t show ?thesis
    by (simp add: gemini_proxy_def gemini_proxy_try_def app_reads_def Let_def split: sum.splits)
qed

lemma app_rejected:
  assumes "app_reads w p k i m" "\<not> truthy k \<or> \<not> truthy i"
  shows "\<exists>msg. gemini_proxy w (Inr p) = (Inr (error_response 400 msg), [])"
  using assms
  by (auto simp: gemini_proxy_def gemini_proxy_try_def app_reads_def)

lemma server_accepted:
  assumes "server_valid w body k i m"
  shows "do_POST w ''/api/gemini'' (Inr body) =
           (case and_then (urlopen w (server_request w k i m)) (read_rows w) of
              Inl e \<Rightarrow> (case do_POST_except w e of
                           Inl e' \<Rightarrow> error_response 500 (str_of_exn w e')
                         | Inr r \<Rightarrow> r)
            | Inr rows \<Rightarrow> rows_response rows,
            [server_request w k i m])"
proof -
  from assms have t: "truthy k" "truthy i" by (simp_all add: server_valid_def)
  from assms obtain p where "json_loads w body = Inr p"
    and "dict_get p ''apiKey'' (JStr []) = Inr k"
    and "dict_get p ''imageB64'' (JStr []) = Inr i"
    and "dict_get p ''mimeType'' (JStr ''image/jpeg'') = Inr m"
    by (auto simp: server_valid_def server_reads_def split: sum.splits)
  with t show ?thesis
    by (simp add: do_POST_def do_POST_try_def Let_def split: sum.splits)
qed

lemma server_rejected:
  assumes "server_reads w body k i m" "\<not> truthy k \<or> \<not> truthy i"
  shows "\<exists>msg. do_POST w ''/api/gemini'' (Inr body) = (error_response 400 msg, [])"
proof -
  from assms(1) obtain p where "json_loads w body = Inr p"
    and "dict_get p ''apiKey'' (JStr []) = Inr k"
    and "dict_get p ''imageB64'' (JStr []) = Inr i"
    and "dict_get p ''mimeType'' (JStr ''image/jpeg'') = Inr m"
    by (auto simp: server_reads_def split: sum.splits)
  with assms(2) show ?thesis
    by (auto simp: do_POST_def do_POST_try_def)
qed



lemma getitem_key_raises: "getitem_key j k = Inl e \<Longrightarrow> e = KeyError (JStr k) \<or> e = TypeError"
  by (cases j) (auto split: option.splits)

lemma getitem_0_raises:
  "getitem_0 j = Inl e \<Longrightarrow> e = KeyError (JInt 0) \<or> e = IndexError \<or> e = TypeError"
  by (cases j) (auto split: list.splits)

lemma extract_text_raises:
  "extract_text j = Inl e \<Longrightarrow> (\<exists>k. e = KeyError k) \<or> e = IndexError \<or> e = TypeError"
  unfolding extract_text_def and_then_def
  by (auto split: sum.splits dest!: getitem_key_raises getitem_0_raises)

lemma extract_text_envelope: "extract_text (envelope t) = Inr t"
  by (simp add: extract_text_def envelope_def)

section \<open>Properties of the sample inputs\<close>

lemma sample_loads_body: "sample_loads sample_body = Inr sample_payload"
  by (simp add: sample_loads_def sample_table_def sample_body_def envelope_text_def)

lemma sample_loads_no_image:
  \<open>sample_loads ''{"apiKey":"REQKEY"}'' = Inr (JObj [(''apiKey'', JStr ''REQKEY'')])\<close>
  by (simp add: sample_loads_def sample_table_def sample_body_def envelope_text_def)

lemma sample_loads_empty_object: "sample_loads ''{}'' = Inr (JObj [])"
  by (simp add: sample_loads_def sample_table_def sample_body_def envelope_text_def)

lemma sample_loads_fenced_envelope:
  "sample_loads (envelope_text (''```json'' @ [CHR 0x5C, CHR ''n''] @ ''[1, 2]''
       @ [CHR 0x5C, CHR ''n''] @ ''```''))
     = Inr (envelope (JStr (fenced ''[1, 2]'')))"
  by (simp add: sample_loads_def sample_table_def sample_body_def envelope_text_def)

lemma sample_loads_array: "sample_loads ''[1, 2]'' = Inr (JArr [JInt 1, JInt 2])"
  by (simp add: sample_loads_def sample_table_def sample_body_def envelope_text_def)

lemma sample_loads_inner_fence_envelope:
  \<open>sample_loads (envelope_text (''```json'' @ [CHR 0x5C, CHR ''n''] @ ''['' @ [CHR 0x5C, CHR 0x22]
       @ ''```'' @ [CHR 0x5C, CHR 0x22] @ '']'' @ [CHR 0x5C, CHR ''n''] @ ''```''))
     = Inr (envelope (JStr (fenced ''["```"]'')))\<close>
  by (simp add: sample_loads_def sample_table_def sample_body_def envelope_text_def)

lemma sample_loads_fence_string: \<open>sample_loads ''["```"]'' = Inr (JArr [JStr ''```''])\<close>
  by (simp add: sample_loads_def sample_table_def sample_body_def envelope_text_def)

lemma sample_loads_empty_string: \<open>sample_loads ''[""]'' = Inr (JArr [JStr []])\<close>
  by (simp add: sample_loads_def sample_table_def sample_body_def envelope_text_def)

lemma sample_loads_padded_envelope:
  "sample_loads (envelope_text '' [1, 2] '') = Inr (envelope (JStr '' [1, 2] ''))"
  by (simp add: sample_loads_def sample_table_def sample_body_def envelope_text_def)

lemma sample_loads_object_envelope:
  \<open>sample_loads (envelope_text (''{'' @ [CHR 0x5C, CHR 0x22] @ ''mrp'' @ [CHR 0x5C, CHR 0x22] @ '':''
       @ [CHR 0x5C, CHR 0x22] @ ''405'' @ [CHR 0x5C, CHR 0x22] @ ''}''))
     = Inr (envelope (JStr ''{"mrp":"405"}''))\<close>
  by (simp add: sample_loads_def sample_table_def sample_body_def envelope_text_def)

lemma sample_loads_object: \<open>sample_loads ''{"mrp":"405"}'' = Inr (JObj [(''mrp'', JStr ''405'')])\<close>
  by (simp add: sample_loads_def sample_table_def sample_body_def envelope_text_def)

lemma sample_loads_scalar_envelope:
  "sample_loads (envelope_text ''5'') = Inr (envelope (JStr ''5''))"
  by (simp add: sample_loads_def sample_table_def sample_body_def envelope_text_def)

lemma sample_loads_scalar: "sample_loads ''5'' = Inr (JInt 5)"
  by (simp add: sample_loads_def sample_table_def sample_body_def envelope_text_def)

lemma sample_loads_prose_envelope:
  "sample_loads (envelope_text ''hello'') = Inr (envelope (JStr ''hello''))"
  by (simp add: sample_loads_def sample_table_def sample_body_def envelope_text_def)

lemma sample_loads_prose:
  "sample_loads ''hello'' = Inl (JSONDecodeError ''Expecting value: line 1 column 1 (char 0)'')"
  by (simp add: sample_loads_def sample_table_def sample_body_def envelope_text_def)

lemma sample_world_simps [simp]:
  "environ_key (sample_world key out) = key"
  "json_loads (sample_world key out) = sample_loads"
  "urlopen (sample_world key out) req = out"
  by (simp_all add: sample_world_def)

lemma sample_app_valid:
  "app_valid (sample_world None out) sample_payload (JStr ''REQKEY'') (JStr ''AAAA'') (JStr ''image/jpeg'')"
  by (simp add: app_valid_def app_reads_def app_api_key_def sample_payload_def)

lemma sample_app_valid_env:
  "app_valid (sample_world (Some ''ENVKEY'') out) sample_payload (JStr ''ENVKEY'') (JStr ''AAAA'') (JStr ''image/jpeg'')"
  by (simp add: app_valid_def app_reads_def app_api_key_def sample_payload_def)

lemma sample_server_valid:
  "server_valid (sample_world key out) sample_body (JStr ''REQKEY'') (JStr ''AAAA'') (JStr ''image/jpeg'')"
  by (simp add: server_valid_def server_reads_def sample_loads_body) (simp add: sample_payload_def)

lemma normalize_scalar_text: "normalize ''5'' = ''5''"
  by code_simp

lemma normalize_prose_text: "normalize ''hello'' = ''hello''"
  by code_simp

lemma normalize_padded_text: "normalize '' [1, 2] '' = ''[1, 2]''"
  by code_simp

lemma normalize_object_text: \<open>normalize ''{"mrp":"405"}'' = ''{"mrp":"405"}''\<close>
  by code_simp

lemma normalize_inner_fence_text: \<open>normalize (fenced ''["```"]'') = ''[""]''\<close>
  by code_simp

lemma read_rows_text:
  "json_loads w raw = Inr result \<Longrightarrow> extract_text result = Inr (JStr text) \<Longrightarrow>
     read_rows w raw = and_then (json_loads w (normalize text)) (\<lambda>rows. Inr (as_list rows))"
  by (simp add: read_rows_def)

lemma app_success:
  assumes "app_valid w p k i m" "urlopen w (app_request w k i m) = Inr raw"
    "json_loads w raw = Inr result" "extract_text result = Inr (JStr t)"
    "json_loads w (normalize t) = Inr rows"
  shows "gemini_proxy w (Inr p) = (Inr (rows_response (as_list rows)), [app_request w k i m])"
  using assms by (simp add: app_accepted read_rows_text)

lemma server_success:
  assumes "server_valid w body k i m" "urlopen w (server_request w k i m) = Inr raw"
    "json_loads w raw = Inr result" "extract_text result = Inr (JStr t)"
    "json_loads w (normalize t) = Inr rows"
  shows "do_POST w ''/api/gemini'' (Inr body)
           = (rows_response (as_list rows), [server_request w k i m])"
  using assms by (simp add: server_accepted read_rows_text)

section \<open>Normalization of the model's text\<close>




section \<open>The shape of the rows\<close>

text \<open>
  C3, as stated, fails: a parsed value that is neither an object nor an array is not
  returned unchanged. When the model's text is \<^verbatim>\<open>5\<close>, which parses to the number 5,
  both handlers answer with the rows \<^verbatim>\<open>[5]\<close>.
\<close>

theorem scalar_unchanged_counterexample:
  "json_loads (sample_world None (Inr (envelope_text ''5''))) ''5'' = Inr (JInt 5) \<and>
   fst (gemini_proxy (sample_world None (Inr (envelope_text ''5''))) (Inr sample_payload))
     = Inr (rows_response (JArr [JInt 5])) \<and>
   fst (do_POST (sample_world None (Inr (envelope_text ''5''))) ''/api/gemini'' (Inr sample_body))
     = rows_response (JArr [JInt 5]) \<and>
   rows_response (JArr [JInt 5]) \<noteq> rows_response (JInt 5)"
proof -
  let ?w = "sample_world None (Inr (envelope_text ''5''))"
  have a: "gemini_proxy ?w (Inr sample_payload)
      = (Inr (rows_response (as_list (JInt 5))), [app_request ?w (JStr ''REQKEY'') (JStr ''AAAA'') (JStr ''image/jpeg'')])"
    by (rule app_success [OF sample_app_valid, where t = "''5''" and result = "envelope (JStr ''5'')"
          and raw = "envelope_text ''5''"])
      (simp_all add: sample_loads_scalar_envelope extract_text_envelope normalize_scalar_text
        sample_loads_scalar)
  have b: "do_POST ?w ''/api/gemini'' (Inr sample_body)
      = (rows_response (as_list (JInt 5)), [server_request ?w (JStr ''REQKEY'') (JStr ''AAAA'') (JStr ''image/jpeg'')])"
    by (rule server_success [OF sample_server_valid, where t = "''5''" and result = "envelope (JStr ''5'')"
          and raw = "envelope_text ''5''"])
      (simp_all add: sample_loads_scalar_envelope extract_text_envelope normalize_scalar_text
        sample_loads_scalar)
  show ?thesis by (simp add: a b sample_loads_scalar rows_response_def)
qed

text \<open>
  C3, amended: after the normalized text parses as JSON, an array is returned unchanged,
  without validation of its elements, and every other value, an object or a scalar,
  is returned as the one-element array containing it.
\<close>

theorem parsed_value_wrapping:
  "json_loads w raw = Inr result \<and> extract_text result = Inr (JStr text) \<and>
   json_loads w (normalize text) = Inr rows \<longrightarrow>
     (app_valid w p k i m \<and> urlopen w (app_request w k i m) = Inr raw \<longrightarrow>
        fst (gemini_proxy w (Inr p))
          = Inr (rows_response (case rows of JArr xs \<Rightarrow> JArr xs | _ \<Rightarrow> JArr [rows]))) \<and>
     (server_valid w body k' i' m' \<and> urlopen w (server_request w k' i' m') = Inr raw \<longrightarrow>
        fst (do_POST w ''/api/gemini'' (Inr body))
          = rows_response (case rows of JArr xs \<Rightarrow> JArr xs | _ \<Rightarrow> JArr [rows]))"
proof -
  have "as_list rows = (case rows of JArr xs \<Rightarrow> JArr xs | _ \<Rightarrow> JArr [rows])"
    by (cases rows) simp_all
  then show ?thesis by (auto simp: app_success server_success)
qed

text \<open>C3, an instance: the model answers with one bare object.\<close>

theorem parsed_value_wrapping_witness:
  \<open>fst (gemini_proxy (sample_world None (Inr (envelope_text (''{'' @ [CHR 0x5C, CHR 0x22] @ ''mrp''
       @ [CHR 0x5C, CHR 0x22] @ '':'' @ [CHR 0x5C, CHR 0x22] @ ''405'' @ [CHR 0x5C, CHR 0x22] @ ''}''))))
     (Inr sample_payload))
     = Inr (rows_response (JArr [JObj [(''mrp'', JStr ''405'')]])) \<and>
   fst (do_POST (sample_world None (Inr (envelope_text (''{'' @ [CHR 0x5C, CHR 0x22] @ ''mrp''
       @ [CHR 0x5C, CHR 0x22] @ '':'' @ [CHR 0x5C, CHR 0x22] @ ''405'' @ [CHR 0x5C, CHR 0x22] @ ''}''))))
     ''/api/gemini'' (Inr sample_body))
     = rows_response (JArr [JObj [(''mrp'', JStr ''405'')]])\<close>
proof -
  let ?raw = "envelope_text (''{'' @ [CHR 0x5C, CHR 0x22] @ ''mrp''
       @ [CHR 0x5C, CHR 0x22] @ '':'' @ [CHR 0x5C, CHR 0x22] @ ''405'' @ [CHR 0x5C, CHR 0x22] @ ''}'')"
  let ?w = "sample_world None (Inr ?raw)"
  let ?text = "[CHR ''{'', CHR 0x22, CHR ''m'', CHR ''r'', CHR ''p'', CHR 0x22, CHR '':'', CHR 0x22,
                CHR ''4'', CHR ''0'', CHR ''5'', CHR 0x22, CHR ''}'']"
  have h: "json_loads ?w ?raw = Inr (envelope (JStr ?text)) \<and>
      extract_text (envelope (JStr ?text)) = Inr (JStr ?text) \<and>
      json_loads ?w (normalize ?text) = Inr (JObj [(''mrp'', JStr ''405'')])"
    using sample_loads_object_envelope sample_loads_object normalize_object_text
    by (simp add: extract_text_envelope)
  have u: "urlopen ?w req = Inr ?raw" for req by simp
  from parsed_value_wrapping [of ?w ?raw "envelope (JStr ?text)" ?text
      "JObj [(''mrp'', JStr ''405'')]" sample_payload "JStr ''REQKEY''" "JStr ''AAAA''"
      "JStr ''image/jpeg''" sample_body "JStr ''REQKEY''" "JStr ''AAAA''" "JStr ''image/jpeg''"]
    h sample_app_valid [of "Inr ?raw"] sample_server_valid [of None "Inr ?raw"] u
  show ?thesis by simp
qed

lemma as_list_array: "\<exists>xs. as_list v = JArr xs"
  by (cases v) simp_all

lemma rows_of_error [simp]: "rows_of (error_response code msg) = None"
  by (simp add: rows_of_def error_response_def)

lemma rows_of_rows [simp]: "rows_of (rows_response v) = Some v"
  by (simp add: rows_of_def rows_response_def)

lemma read_rows_array: "read_rows w raw = Inr v \<Longrightarrow> \<exists>xs. v = JArr xs"
  unfolding read_rows_def and_then_def using as_list_array
  by (auto split: sum.splits)

lemma gemini_proxy_except_rows:
  "gemini_proxy_except w e = Inr r \<Longrightarrow> rows_of r = None"
  by (cases e) (auto split: option.splits)

lemma do_POST_except_rows:
  "do_POST_except w e = Inr r \<Longrightarrow> rows_of r = None"
  by (cases e) (auto split: option.splits)

lemma upstream_rows_array: "and_then out (read_rows w) = Inr v \<Longrightarrow> \<exists>xs. v = JArr xs"
  by (cases out) (auto dest: read_rows_array)

lemma status_rows_response [simp]: "status_code (rows_response v) = 200"
  by (simp add: rows_response_def)

lemma status_error_response [simp]: "status_code (error_response code msg) = code"
  by (simp add: error_response_def)

lemma app_rows:
  assumes "fst (gemini_proxy w got) = Inr r" "rows_of r = Some v"
  shows "(\<exists>xs. v = JArr xs) \<and> status_code r = 200"
  using assms
  by (auto simp: gemini_proxy_def gemini_proxy_try_def Let_def
      split: sum.splits if_splits dest: gemini_proxy_except_rows upstream_rows_array)

lemma server_rows:
  assumes "rows_of (fst (do_POST w path got)) = Some v"
  shows "(\<exists>xs. v = JArr xs) \<and> status_code (fst (do_POST w path got)) = 200"
  using assms
  by (auto simp: do_POST_def do_POST_try_def Let_def rows_of_def [of "\<lparr>status_code = 404, json_body = None\<rparr>"]
      split: sum.splits if_splits dest: do_POST_except_rows upstream_rows_array)

text \<open>
  C9: whenever a response of either handler has a field \<^verbatim>\<open>rows\<close>, its value is a JSON
  array and the status is 200; a parsed value that is not an array, a scalar as well as
  an object, is wrapped into a one-element array.
\<close>

theorem rows_always_array:
  "(fst (gemini_proxy w got) = Inr r \<and> rows_of r = Some v \<longrightarrow>
      (\<exists>xs. v = JArr xs) \<and> status_code r = 200) \<and>
   (rows_of (fst (do_POST w path got')) = Some v' \<longrightarrow>
      (\<exists>xs. v' = JArr xs) \<and> status_code (fst (do_POST w path got')) = 200) \<and>
   (json_loads w raw = Inr result \<and> extract_text result = Inr (JStr t) \<and>
    json_loads w (normalize t) = Inr parsed \<and> (\<forall>xs. parsed \<noteq> JArr xs) \<longrightarrow>
      read_rows w raw = Inr (JArr [parsed]))"
proof -
  have "as_list parsed = JArr [parsed]" if "\<forall>xs. parsed \<noteq> JArr xs"
    using that by (cases parsed) simp_all
  then show ?thesis
    using app_rows [of w got r v] server_rows [of w path got' v']
    by (auto simp: read_rows_text)
qed

text \<open>C9, an instance: the model answers with the number 5.\<close>

theorem rows_always_array_witness:
  "rows_of (rows_response (JArr [JInt 5])) = Some (JArr [JInt 5]) \<and>
   fst (gemini_proxy (sample_world None (Inr (envelope_text ''5''))) (Inr sample_payload))
     = Inr (rows_response (JArr [JInt 5])) \<and>
   rows_of (fst (do_POST (sample_world None (Inr (envelope_text ''5''))) ''/api/gemini'' (Inr sample_body)))
     = Some (JArr [JInt 5]) \<and>
   status_code (fst (do_POST (sample_world None (Inr (envelope_text ''5''))) ''/api/gemini'' (Inr sample_body)))
     = 200 \<and>
   read_rows (sample_world None (Inr (envelope_text ''5''))) (envelope_text ''5'') = Inr (JArr [JInt 5])"
proof -
  let ?w = "sample_world None (Inr (envelope_text ''5''))"
  have rr: "json_loads ?w (envelope_text ''5'') = Inr (envelope (JStr ''5'')) \<and>
      extract_text (envelope (JStr ''5'')) = Inr (JStr ''5'') \<and>
      json_loads ?w (normalize ''5'') = Inr (JInt 5) \<and> (\<forall>xs. JInt 5 \<noteq> JArr xs)"
    by (simp add: sample_loads_scalar_envelope extract_text_envelope normalize_scalar_text
        sample_loads_scalar)
  have a: "gemini_proxy ?w (Inr sample_payload)
      = (Inr (rows_response (as_list (JInt 5))), [app_request ?w (JStr ''REQKEY'') (JStr ''AAAA'') (JStr ''image/jpeg'')])"
    by (rule app_success [OF sample_app_valid, where t = "''5''" and result = "envelope (JStr ''5'')"
          and raw = "envelope_text ''5''"])
      (use rr in simp_all)
  have b: "do_POST ?w ''/api/gemini'' (Inr sample_body)
      = (rows_response (as_list (JInt 5)), [server_request ?w (JStr ''REQKEY'') (JStr ''AAAA'') (JStr ''image/jpeg'')])"
    by (rule server_success [OF sample_server_valid, where t = "''5''" and result = "envelope (JStr ''5'')"
          and raw = "envelope_text ''5''"])
      (use rr in simp_all)
  from rows_always_array [of ?w "Inr sample_payload" "rows_response (JArr [JInt 5])" "JArr [JInt 5]"
      "''/api/gemini''" "Inr sample_body" "JArr [JInt 5]" "envelope_text ''5''"
      "envelope (JStr ''5'')" "''5''" "JInt 5"] rr a b
  show ?thesis by simp
qed

section \<open>The credential\<close>

lemma url_app_request [simp]:
  "url (app_request w k i m) =
     ''https://generativelanguage.googleapis.com/v1beta/models/gemini-2.5-flash-preview-04-17:generateContent?key=''
       @ fstr w k"
  by (simp add: app_request_def GEMINI_MODEL_def)

lemma url_server_request [simp]:
  "url (server_request w k i m) =
     ''https://generativelanguage.googleapis.com/v1beta/models/gemini-2.5-flash:generateContent?key=''
       @ fstr w k"
  by (simp add: server_request_def)

lemma app_calls_valid: "app_valid w p k i m \<Longrightarrow> snd (gemini_proxy w (Inr p)) = [app_request w k i m]"
  by (simp add: app_accepted)

lemma server_calls_valid:
  "server_valid w body k i m \<Longrightarrow> snd (do_POST w ''/api/gemini'' (Inr body)) = [server_request w k i m]"
  by (simp add: server_accepted)

text \<open>
  C1, as stated, fails: server.py never reads the configuration value. With
  \<^verbatim>\<open>GEMINI_API_KEY\<close> set to \<^verbatim>\<open>ENVKEY\<close> and a request that supplies \<^verbatim>\<open>REQKEY\<close>,
  \<^verbatim>\<open>do_POST\<close> calls the upstream URL with \<^verbatim>\<open>REQKEY\<close>.
\<close>

theorem credential_config_first_counterexample:
  "environ_key (sample_world (Some ''ENVKEY'') (Inl (URLError ''timed out''))) = Some ''ENVKEY'' \<and>
   map url (snd (do_POST (sample_world (Some ''ENVKEY'') (Inl (URLError ''timed out'')))
                   ''/api/gemini'' (Inr sample_body)))
     = [''https://generativelanguage.googleapis.com/v1beta/models/gemini-2.5-flash:generateContent?key=REQKEY'']"
  by (simp add: server_calls_valid [OF sample_server_valid])

text \<open>
  C1, amended: in app.py the credential in the upstream URL is the value of
  \<^verbatim>\<open>GEMINI_API_KEY\<close> whenever that value is set and not empty, whatever the request
  supplies, and the \<^verbatim>\<open>apiKey\<close> of the request body otherwise; in server.py it is always
  the \<^verbatim>\<open>apiKey\<close> of the request body.
\<close>

theorem credential_resolution:
  "(app_valid w p k i m \<longrightarrow>
      map url (snd (gemini_proxy w (Inr p)))
        = [''https://generativelanguage.googleapis.com/v1beta/models/gemini-2.5-flash-preview-04-17:generateContent?key=''
             @ fstr w k] \<and>
      (\<forall>e. environ_key w = Some e \<and> e \<noteq> [] \<longrightarrow> k = JStr e) \<and>
      (environ_key w = None \<or> environ_key w = Some [] \<longrightarrow>
         dict_get p ''apiKey'' (JStr []) = Inr k)) \<and>
   (server_valid w body k' i' m' \<longrightarrow>
      map url (snd (do_POST w ''/api/gemini'' (Inr body)))
        = [''https://generativelanguage.googleapis.com/v1beta/models/gemini-2.5-flash:generateContent?key=''
             @ fstr w k'] \<and>
      (\<exists>payload. json_loads w body = Inr payload \<and> dict_get payload ''apiKey'' (JStr []) = Inr k'))"
proof -
  have "k = JStr e" if "app_valid w p k i m" "environ_key w = Some e" "e \<noteq> []" for e
    using that by (simp add: app_valid_def app_reads_def app_api_key_def)
  moreover have "dict_get p ''apiKey'' (JStr []) = Inr k"
    if "app_valid w p k i m" "environ_key w = None \<or> environ_key w = Some []"
    using that by (auto simp: app_valid_def app_reads_def app_api_key_def)
  moreover have "\<exists>payload. json_loads w body = Inr payload \<and> dict_get payload ''apiKey'' (JStr []) = Inr k'"
    if "server_valid w body k' i' m'"
    using that by (auto simp: server_valid_def server_reads_def split: sum.splits)
  ultimately show ?thesis
    by (simp add: app_calls_valid server_calls_valid)
qed

text \<open>C1, an instance: the variable is set to \<^verbatim>\<open>ENVKEY\<close>, the request supplies \<^verbatim>\<open>REQKEY\<close>.\<close>

theorem credential_resolution_witness:
  "map url (snd (gemini_proxy (sample_world (Some ''ENVKEY'') (Inl (URLError ''timed out'')))
                   (Inr sample_payload)))
     = [''https://generativelanguage.googleapis.com/v1beta/models/gemini-2.5-flash-preview-04-17:generateContent?key=ENVKEY''] \<and>
   map url (snd (do_POST (sample_world (Some ''ENVKEY'') (Inl (URLError ''timed out'')))
                   ''/api/gemini'' (Inr sample_body)))
     = [''https://generativelanguage.googleapis.com/v1beta/models/gemini-2.5-flash:generateContent?key=REQKEY'']"
  using credential_resolution [of "sample_world (Some ''ENVKEY'') (Inl (URLError ''timed out''))"
      sample_payload "JStr ''ENVKEY''" "JStr ''AAAA''" "JStr ''image/jpeg''"
      sample_body "JStr ''REQKEY''" "JStr ''AAAA''" "JStr ''image/jpeg''"]
    sample_app_valid_env [of "Inl (URLError ''timed out'')"]
    sample_server_valid [of "Some ''ENVKEY''" "Inl (URLError ''timed out'')"]
  by simp

section \<open>Missing input\<close>

lemma sample_loads_null: "sample_loads ''null'' = Inr JNull"
  by (simp add: sample_loads_def sample_table_def sample_body_def envelope_text_def)

lemma app_not_object:
  assumes "truthy p" "\<forall>kvs. p \<noteq> JObj kvs"
  shows "gemini_proxy w (Inr p) = (Inr (error_response 500 (str_of_exn w AttributeError)), [])"
proof -
  have "dict_get p k d = Inl AttributeError" for k d using assms(2) by (cases p) simp_all
  with assms(1) show ?thesis
    by (simp add: gemini_proxy_def gemini_proxy_try_def app_api_key_def split: option.splits)
qed

lemma server_not_object:
  assumes "json_loads w body = Inr q" "\<forall>kvs. q \<noteq> JObj kvs"
  shows "do_POST w ''/api/gemini'' (Inr body)
           = (error_response 500 (str_of_exn w AttributeError), [])"
proof -
  have "dict_get q k d = Inl AttributeError" for k d using assms(2) by (cases q) simp_all
  with assms(1) show ?thesis by (simp add: do_POST_def do_POST_try_def)
qed

lemma server_unparsed:
  "json_loads w body = Inl e \<Longrightarrow>
     do_POST w ''/api/gemini'' (Inr body) = (error_response 500 (str_of_exn w e), [])"
  by (simp add: do_POST_def do_POST_try_def)

lemma app_calls_only_valid:
  "snd (gemini_proxy w got) \<noteq> [] \<Longrightarrow> \<exists>p k i m. got = Inr p \<and> app_valid w p k i m"
  by (auto simp: gemini_proxy_def gemini_proxy_try_def app_valid_def app_reads_def Let_def
      split: sum.splits if_splits)

lemma server_calls_only_valid:
  "snd (do_POST w path got) \<noteq> [] \<Longrightarrow>
     \<exists>body k i m. got = Inr body \<and> path = ''/api/gemini'' \<and> server_valid w body k i m"
  by (cases got)
    (auto simp: do_POST_def do_POST_try_def server_valid_def server_reads_def Let_def
      split: sum.splits if_splits)

text \<open>
  C4, as stated, fails for a request whose body is not a JSON object: such a request
  carries no image and no credential, and the answer is 500, not 400. So it is for
  server.py with the body \<^verbatim>\<open>null\<close> and for app.py with the payload \<^verbatim>\<open>[1]\<close>; neither
  calls the upstream.
\<close>

theorem missing_input_status_counterexample:
  "json_loads (sample_world None (Inr ''unused'')) ''null'' = Inr JNull \<and>
   status_code (fst (do_POST (sample_world None (Inr ''unused'')) ''/api/gemini'' (Inr ''null''))) = 500 \<and>
   snd (do_POST (sample_world None (Inr ''unused'')) ''/api/gemini'' (Inr ''null'')) = [] \<and>
   gemini_proxy (sample_world None (Inr ''unused'')) (Inr (JArr [JInt 1]))
     = (Inr (error_response 500 (exception_text (sample_world None (Inr ''unused'')) AttributeError)), [])"
  using sample_loads_null
  by (simp add: server_not_object [where q = JNull] app_not_object)

text \<open>
  C4, amended: when the request body is a JSON object and the image data read from it
  is empty, or the credential resolved is empty, either handler answers 400 with an
  error message, and so does app.py for every empty payload; a body that is not a JSON
  object, or in server.py does not parse, is answered 500. In none of these cases is the
  upstream called: either handler calls it only when both values read are non-empty.
\<close>

theorem missing_input_rejected:
  "(app_reads w p k i m \<and> (\<not> truthy k \<or> \<not> truthy i) \<longrightarrow>
      (\<exists>msg. gemini_proxy w (Inr p) = (Inr (error_response 400 msg), []))) \<and>
   (\<not> truthy p \<longrightarrow>
      gemini_proxy w (Inr p) = (Inr (error_response 400 ''Invalid JSON body''), [])) \<and>
   (server_reads w body k' i' m' \<and> (\<not> truthy k' \<or> \<not> truthy i') \<longrightarrow>
      (\<exists>msg. do_POST w ''/api/gemini'' (Inr body) = (error_response 400 msg, []))) \<and>
   (truthy p' \<and> (\<forall>kvs. p' \<noteq> JObj kvs) \<longrightarrow>
      gemini_proxy w (Inr p') = (Inr (error_response 500 (str_of_exn w AttributeError)), [])) \<and>
   (json_loads w body' = Inr q \<and> (\<forall>kvs. q \<noteq> JObj kvs) \<longrightarrow>
      do_POST w ''/api/gemini'' (Inr body')
        = (error_response 500 (str_of_exn w AttributeError), [])) \<and>
   (json_loads w body' = Inl e \<longrightarrow>
      do_POST w ''/api/gemini'' (Inr body') = (error_response 500 (str_of_exn w e), [])) \<and>
   (snd (gemini_proxy w got) \<noteq> [] \<longrightarrow> (\<exists>p k i m. got = Inr p \<and> app_valid w p k i m)) \<and>
   (snd (do_POST w path got') \<noteq> [] \<longrightarrow>
      (\<exists>body k i m. got' = Inr body \<and> path = ''/api/gemini'' \<and> server_valid w body k i m))"
proof -
  have "gemini_proxy w (Inr p) = (Inr (error_response 400 ''Invalid JSON body''), [])"
    if "\<not> truthy p"
    using that by (simp add: gemini_proxy_def gemini_proxy_try_def)
  then show ?thesis
    using app_rejected [of w p k i m] server_rejected [of w body k' i' m']
      app_not_object [of p' w] server_not_object [of w body' q] server_unparsed [of w body' e]
      app_calls_only_valid [of w got] server_calls_only_valid [of w path got']
    by blast
qed

text \<open>
  C4, instances: a request with a credential and no image, an empty payload, and the
  body \<^verbatim>\<open>null\<close>.
\<close>

theorem missing_input_rejected_witness:
  \<open>gemini_proxy (sample_world None (Inr ''unused'')) (Inr (JObj [(''apiKey'', JStr ''REQKEY'')]))
     = (Inr (error_response 400 ''No image data received''), []) \<and>
   gemini_proxy (sample_world None (Inr ''unused'')) (Inr (JObj []))
     = (Inr (error_response 400 ''Invalid JSON body''), []) \<and>
   do_POST (sample_world None (Inr ''unused'')) ''/api/gemini'' (Inr ''{"apiKey":"REQKEY"}'')
     = (error_response 400 ''Missing imageB64'', []) \<and>
   do_POST (sample_world None (Inr ''unused'')) ''/api/gemini'' (Inr ''null'')
     = (error_response 500 (exception_text (sample_world None (Inr ''unused'')) AttributeError), [])\<close>
proof -
  let ?w = "sample_world None (Inr ''unused'')"
  let ?p = "JObj [(''apiKey'', JStr ''REQKEY'')]"
  let ?b = "[CHR ''{'', CHR 0x22, CHR ''a'', CHR ''p'', CHR ''i'', CHR ''K'', CHR ''e'', CHR ''y'',
             CHR 0x22, CHR '':'', CHR 0x22, CHR ''R'', CHR ''E'', CHR ''Q'', CHR ''K'', CHR ''E'',
             CHR ''Y'', CHR 0x22, CHR ''}'']"
  note th = missing_input_rejected [where w = ?w and p = ?p and k = "JStr ''REQKEY''"
      and i = "JStr []" and m = "JStr ''image/jpeg''" and body = ?b and k' = "JStr ''REQKEY''"
      and i' = "JStr []" and m' = "JStr ''image/jpeg''" and body' = "''null''" and q = JNull]
  have a: "app_reads ?w ?p (JStr ''REQKEY'') (JStr []) (JStr ''image/jpeg'')"
    by (simp add: app_reads_def app_api_key_def)
  have b: "server_reads ?w ?b (JStr ''REQKEY'') (JStr []) (JStr ''image/jpeg'')"
    using sample_loads_no_image by (simp add: server_reads_def)
  have n: "json_loads ?w ''null'' = Inr JNull \<and> (\<forall>kvs. JNull \<noteq> JObj kvs)"
    using sample_loads_null by simp
  from th [THEN conjunct1] a
  have "\<exists>m1. gemini_proxy ?w (Inr ?p) = (Inr (error_response 400 m1), [])"
    by simp
  moreover from th [THEN conjunct2, THEN conjunct2, THEN conjunct1] b
  have "\<exists>m2. do_POST ?w ''/api/gemini'' (Inr ?b) = (error_response 400 m2, [])"
    by simp
  ultimately obtain m1 m2 where "gemini_proxy ?w (Inr ?p) = (Inr (error_response 400 m1), [])"
    and "do_POST ?w ''/api/gemini'' (Inr ?b) = (error_response 400 m2, [])"
    by blast
  moreover have "fst (gemini_proxy ?w (Inr ?p)) = Inr (error_response 400 ''No image data received'')"
    by (simp add: gemini_proxy_def gemini_proxy_try_def app_api_key_def)
  moreover have "fst (do_POST ?w ''/api/gemini'' (Inr ?b)) = error_response 400 ''Missing imageB64''"
    using sample_loads_no_image by (simp add: do_POST_def do_POST_try_def)
  moreover from missing_input_rejected [where p = "JObj []" and w = ?w]
  have "gemini_proxy ?w (Inr (JObj [])) = (Inr (error_response 400 ''Invalid JSON body''), [])"
    by simp
  moreover from th [THEN conjunct2, THEN conjunct2, THEN conjunct2, THEN conjunct2, THEN conjunct1] n
  have "do_POST ?w ''/api/gemini'' (Inr ''null'')
      = (error_response 500 (str_of_exn ?w AttributeError), [])"
    by simp
  ultimately show ?thesis by simp
qed

section \<open>Upstream errors\<close>

lemma upstream_message_cases:
  "upstream_message w err_body =
     (case json_loads w err_body of
        Inr (JObj kvs) \<Rightarrow>
          (case map_of kvs ''error'' of
             None \<Rightarrow> JStr err_body
           | Some (JObj e) \<Rightarrow> (case map_of e ''message'' of None \<Rightarrow> JStr err_body | Some msg \<Rightarrow> msg)
           | Some _ \<Rightarrow> JStr err_body)
      | _ \<Rightarrow> JStr err_body)"
  by (auto simp: upstream_message_def and_then_def split: sum.splits json.splits option.splits)

lemma upstream_error_forwarded:
  "app_valid w p k i m \<Longrightarrow> urlopen w (app_request w k i m) = Inl (HTTPError code (Some err_body)) \<Longrightarrow>
     fst (gemini_proxy w (Inr p))
       = Inr (error_response code (''Gemini API error: '' @ fstr w (upstream_message w err_body)))"
  "server_valid w body k' i' m' \<Longrightarrow>
     urlopen w (server_request w k' i' m') = Inl (HTTPError code (Some err_body)) \<Longrightarrow>
     fst (do_POST w ''/api/gemini'' (Inr body))
       = error_response code (''Gemini API error: '' @ fstr w (upstream_message w err_body))"
  by (simp_all add: app_accepted server_accepted)

lemma sample_loads_rate_limited:
  \<open>sample_loads ''{"error":{"message":"rate limited"}}''
     = Inr (JObj [(''error'', JObj [(''message'', JStr ''rate limited'')])])\<close>
  by (simp add: sample_loads_def sample_table_def sample_body_def envelope_text_def)

lemma rate_limited_forwarded:
  \<open>fst (gemini_proxy (sample_world None (Inl (HTTPError 429
          (Some ''{"error":{"message":"rate limited"}}'')))) (Inr sample_payload))
     = Inr (error_response 429 ''Gemini API error: rate limited'') \<and>
   fst (do_POST (sample_world None (Inl (HTTPError 429
          (Some ''{"error":{"message":"rate limited"}}'')))) ''/api/gemini'' (Inr sample_body))
     = error_response 429 ''Gemini API error: rate limited''\<close>
  using sample_loads_rate_limited
  by (simp add: upstream_error_forwarded(1) [OF sample_app_valid]
      upstream_error_forwarded(2) [OF sample_server_valid] upstream_message_cases)

text \<open>
  C5 fails on an upstream error whose body does not decode: for a reply with status 429
  and such a body, \<^verbatim>\<open>gemini_proxy\<close> leaves with \<^verbatim>\<open>UnicodeDecodeError\<close> and \<^verbatim>\<open>do_POST\<close>
  answers 500, where the claim has status 429.
\<close>

theorem undecodable_error_body:
  "fst (gemini_proxy (sample_world None (Inl (HTTPError 429 None))) (Inr sample_payload))
     = Inl UnicodeDecodeError \<and>
   status_code (fst (do_POST (sample_world None (Inl (HTTPError 429 None))) ''/api/gemini''
                       (Inr sample_body))) = 500"
  by (simp add: app_accepted [OF sample_app_valid] server_accepted [OF sample_server_valid])

section \<open>Unusable content\<close>

lemma read_rows_extract_fail:
  "json_loads w raw = Inr result \<Longrightarrow> extract_text result = Inl e \<Longrightarrow> read_rows w raw = Inl e"
  by (simp add: read_rows_def)

lemma read_rows_clean_fail:
  "json_loads w raw = Inr result \<Longrightarrow> extract_text result = Inr v \<Longrightarrow> clean_text v = Inl e \<Longrightarrow>
     read_rows w raw = Inl e"
  by (simp add: read_rows_def)

lemma clean_text_raises: "clean_text v = Inl e \<Longrightarrow> e = AttributeError"
  by (cases v) simp_all

lemma app_shape_error:
  assumes "app_valid w p k i m" "urlopen w (app_request w k i m) = Inr raw"
    "read_rows w raw = Inl e" "(\<exists>j. e = KeyError j) \<or> e = IndexError \<or> e = TypeError \<or> e = AttributeError"
  shows "\<exists>msg. fst (gemini_proxy w (Inr p)) = Inr (error_response 500 msg)"
  using assms by (auto simp: app_accepted)

lemma server_shape_error:
  assumes "server_valid w body k i m" "urlopen w (server_request w k i m) = Inr raw"
    "read_rows w raw = Inl e" "(\<exists>j. e = KeyError j) \<or> e = IndexError \<or> e = TypeError \<or> e = AttributeError"
  shows "\<exists>msg. fst (do_POST w ''/api/gemini'' (Inr body)) = error_response 500 msg"
  using assms by (auto simp: server_accepted)

lemma app_parse_error:
  assumes "app_valid w p k i m" "urlopen w (app_request w k i m) = Inr raw"
    "json_loads w raw = Inr result" "extract_text result = Inr (JStr t)"
    "json_loads w (normalize t) = Inl (JSONDecodeError msg)"
  shows "fst (gemini_proxy w (Inr p))
           = Inr (error_response 500 (''Failed to parse Gemini response: '' @ msg))"
  using assms by (simp add: app_accepted read_rows_text)

lemma server_parse_error:
  assumes "server_valid w body k i m" "urlopen w (server_request w k i m) = Inr raw"
    "json_loads w raw = Inr result" "extract_text result = Inr (JStr t)"
    "json_loads w (normalize t) = Inl (JSONDecodeError msg)"
  shows "fst (do_POST w ''/api/gemini'' (Inr body))
           = error_response 500 (''Failed to parse Gemini response: '' @ msg)"
  using assms by (simp add: server_accepted read_rows_text)

text \<open>
  C6, as stated, fails: the error of a JSON parse failure does not carry the raw text.
  When the model's text is \<^verbatim>\<open>hello\<close>, the message of both handlers is the prefix
  followed by the parser's own message, in which \<^verbatim>\<open>hello\<close> does not occur.
\<close>

theorem parse_error_raw_text_counterexample:
  "fst (gemini_proxy (sample_world None (Inr (envelope_text ''hello''))) (Inr sample_payload))
     = Inr (error_response 500
         ''Failed to parse Gemini response: Expecting value: line 1 column 1 (char 0)'') \<and>
   fst (do_POST (sample_world None (Inr (envelope_text ''hello''))) ''/api/gemini'' (Inr sample_body))
     = error_response 500
         ''Failed to parse Gemini response: Expecting value: line 1 column 1 (char 0)'' \<and>
   \<not> sublist ''hello''
         ''Failed to parse Gemini response: Expecting value: line 1 column 1 (char 0)''"
proof -
  let ?w = "sample_world None (Inr (envelope_text ''hello''))"
  have a: "fst (gemini_proxy ?w (Inr sample_payload))
      = Inr (error_response 500 (''Failed to parse Gemini response: ''
               @ ''Expecting value: line 1 column 1 (char 0)''))"
    by (rule app_parse_error [OF sample_app_valid, where t = "''hello''"
          and result = "envelope (JStr ''hello'')" and raw = "envelope_text ''hello''"])
      (simp_all add: sample_loads_prose_envelope extract_text_envelope normalize_prose_text
        sample_loads_prose)
  have b: "fst (do_POST ?w ''/api/gemini'' (Inr sample_body))
      = error_response 500 (''Failed to parse Gemini response: ''
               @ ''Expecting value: line 1 column 1 (char 0)'')"
    by (rule server_parse_error [OF sample_server_valid, where t = "''hello''"
          and result = "envelope (JStr ''hello'')" and raw = "envelope_text ''hello''"])
      (simp_all add: sample_loads_prose_envelope extract_text_envelope normalize_prose_text
        sample_loads_prose)
  have c: "\<not> sublist ''hello''
         ''Failed to parse Gemini response: Expecting value: line 1 column 1 (char 0)''"
    by code_simp
  from a b c show ?thesis by simp
qed

text \<open>
  C6, amended: when the transport succeeds and the body parses, but the envelope lacks
  the text field or that field is not a string, both handlers answer 500 with an error
  message; when the normalized text fails to parse as JSON they answer 500 with the
  message \<^verbatim>\<open>Failed to parse Gemini response: \<close> followed by the text of the parser's
  exception.
\<close>

theorem unusable_content_internal_error:
  "json_loads w raw = Inr result \<longrightarrow>
     ((extract_text result = Inl e \<or> (extract_text result = Inr v \<and> clean_text v = Inl e)) \<longrightarrow>
        (app_valid w p k i m \<and> urlopen w (app_request w k i m) = Inr raw \<longrightarrow>
           (\<exists>msg. fst (gemini_proxy w (Inr p)) = Inr (error_response 500 msg))) \<and>
        (server_valid w body k' i' m' \<and> urlopen w (server_request w k' i' m') = Inr raw \<longrightarrow>
           (\<exists>msg. fst (do_POST w ''/api/gemini'' (Inr body)) = error_response 500 msg))) \<and>
     (extract_text result = Inr (JStr t) \<and> json_loads w (normalize t) = Inl (JSONDecodeError m0) \<longrightarrow>
        (app_valid w p k i m \<and> urlopen w (app_request w k i m) = Inr raw \<longrightarrow>
           fst (gemini_proxy w (Inr p))
             = Inr (error_response 500 (''Failed to parse Gemini response: '' @ m0))) \<and>
        (server_valid w body k' i' m' \<and> urlopen w (server_request w k' i' m') = Inr raw \<longrightarrow>
           fst (do_POST w ''/api/gemini'' (Inr body))
             = error_response 500 (''Failed to parse Gemini response: '' @ m0)))"
proof (intro impI conjI)
  assume j: "json_loads w raw = Inr result"
    and f: "extract_text result = Inl e \<or> (extract_text result = Inr v \<and> clean_text v = Inl e)"
  from j f have r: "read_rows w raw = Inl e"
    by (auto simp: read_rows_extract_fail read_rows_clean_fail)
  from f have k: "(\<exists>j. e = KeyError j) \<or> e = IndexError \<or> e = TypeError \<or> e = AttributeError"
    by (auto dest: extract_text_raises clean_text_raises)
  {
    assume "app_valid w p k i m \<and> urlopen w (app_request w k i m) = Inr raw"
    with r k show "\<exists>msg. fst (gemini_proxy w (Inr p)) = Inr (error_response 500 msg)"
      by (blast intro: app_shape_error)
  }
  {
    assume "server_valid w body k' i' m' \<and> urlopen w (server_request w k' i' m') = Inr raw"
    with r k show "\<exists>msg. fst (do_POST w ''/api/gemini'' (Inr body)) = error_response 500 msg"
      by (blast intro: server_shape_error)
  }
next
  assume "json_loads w raw = Inr result"
    "extract_text result = Inr (JStr t) \<and> json_loads w (normalize t) = Inl (JSONDecodeError m0)"
    "app_valid w p k i m \<and> urlopen w (app_request w k i m) = Inr raw"
  then show "fst (gemini_proxy w (Inr p))
      = Inr (error_response 500 (''Failed to parse Gemini response: '' @ m0))"
    by (blast intro: app_parse_error)
next
  assume "json_loads w raw = Inr result"
    "extract_text result = Inr (JStr t) \<and> json_loads w (normalize t) = Inl (JSONDecodeError m0)"
    "server_valid w body k' i' m' \<and> urlopen w (server_request w k' i' m') = Inr raw"
  then show "fst (do_POST w ''/api/gemini'' (Inr body))
      = error_response 500 (''Failed to parse Gemini response: '' @ m0)"
    by (blast intro: server_parse_error)
qed

text \<open>C6, two instances: an envelope without candidates, and prose instead of JSON.\<close>

theorem unusable_content_internal_error_witness:
  "status_code (fst (do_POST (sample_world None (Inr ''{}'')) ''/api/gemini'' (Inr sample_body))) = 500 \<and>
   fst (gemini_proxy (sample_world None (Inr (envelope_text ''hello''))) (Inr sample_payload))
     = Inr (error_response 500
         ''Failed to parse Gemini response: Expecting value: line 1 column 1 (char 0)'')"
proof -
  let ?w = "sample_world None (Inr ''{}'')"
  let ?v = "sample_world None (Inr (envelope_text ''hello''))"
  have "json_loads ?w ''{}'' = Inr (JObj [])"
    and "extract_text (JObj []) = Inl (KeyError (JStr ''candidates''))"
    by (simp_all add: sample_loads_empty_object extract_text_def)
  with unusable_content_internal_error [of ?w "''{}''" "JObj []" "KeyError (JStr ''candidates'')"
      JNull sample_payload "JStr ''REQKEY''" "JStr ''AAAA''" "JStr ''image/jpeg''"
      sample_body "JStr ''REQKEY''" "JStr ''AAAA''" "JStr ''image/jpeg''"]
    sample_server_valid [of None "Inr ''{}''"]
  obtain msg where "fst (do_POST ?w ''/api/gemini'' (Inr sample_body)) = error_response 500 msg"
    by auto
  then have a: "status_code (fst (do_POST ?w ''/api/gemini'' (Inr sample_body))) = 500"
    by simp
  have "json_loads ?v (envelope_text ''hello'') = Inr (envelope (JStr ''hello''))"
    and "extract_text (envelope (JStr ''hello'')) = Inr (JStr ''hello'')"
    and "json_loads ?v (normalize ''hello'')
           = Inl (JSONDecodeError ''Expecting value: line 1 column 1 (char 0)'')"
    by (simp_all add: sample_loads_prose_envelope extract_text_envelope normalize_prose_text
        sample_loads_prose)
  with unusable_content_internal_error [of ?v "envelope_text ''hello''" "envelope (JStr ''hello'')"
      IndexError JNull sample_payload "JStr ''REQKEY''" "JStr ''AAAA''" "JStr ''image/jpeg''"
      sample_body "JStr ''REQKEY''" "JStr ''AAAA''" "JStr ''image/jpeg''" "''hello''"
      "''Expecting value: line 1 column 1 (char 0)''"]
    sample_app_valid [of "Inr (envelope_text ''hello'')"]
  have "fst (gemini_proxy ?v (Inr sample_payload))
     = Inr (error_response 500
         (''Failed to parse Gemini response: '' @ ''Expecting value: line 1 column 1 (char 0)''))"
    by simp
  with a show ?thesis by simp
qed

section \<open>Idempotence and fenced arrays\<close>

lemma normalize_fenced_array:
  assumes "\<not> sublist ''```'' s" "s \<noteq> []" "hd s = CHR ''[''" "last s = CHR '']''"
  shows "normalize (fenced s) = s"
  unfolding fenced_def using assms
  by (intro normalize_fenced) (simp_all add: is_space_def)

text \<open>
  C7, as stated, fails for an array whose text contains a fence marker: for the array
  \<^verbatim>\<open>["```"]\<close>, serialized and wrapped in \<^verbatim>\<open>```json\<close> fences, both handlers return the
  array \<^verbatim>\<open>[""]\<close>.
\<close>

theorem fenced_array_counterexample:
  \<open>json_loads (sample_world None (Inr ''unused'')) ''["```"]'' = Inr (JArr [JStr ''```'']) \<and>
   json_loads (sample_world None (Inr ''unused''))
       (envelope_text (''```json'' @ [CHR 0x5C, CHR ''n''] @ ''['' @ [CHR 0x5C, CHR 0x22]
          @ ''```'' @ [CHR 0x5C, CHR 0x22] @ '']'' @ [CHR 0x5C, CHR ''n''] @ ''```''))
     = Inr (envelope (JStr (fenced ''["```"]''))) \<and>
   fst (gemini_proxy
     (sample_world None (Inr (envelope_text (''```json'' @ [CHR 0x5C, CHR ''n''] @ ''[''
          @ [CHR 0x5C, CHR 0x22] @ ''```'' @ [CHR 0x5C, CHR 0x22] @ '']'' @ [CHR 0x5C, CHR ''n'']
          @ ''```''))))
     (Inr sample_payload))
     = Inr (rows_response (JArr [JStr []])) \<and>
   fst (do_POST
     (sample_world None (Inr (envelope_text (''```json'' @ [CHR 0x5C, CHR ''n''] @ ''[''
          @ [CHR 0x5C, CHR 0x22] @ ''```'' @ [CHR 0x5C, CHR 0x22] @ '']'' @ [CHR 0x5C, CHR ''n'']
          @ ''```''))))
     ''/api/gemini'' (Inr sample_body))
     = rows_response (JArr [JStr []])\<close>
proof -
  let ?raw = "envelope_text (''```json'' @ [CHR 0x5C, CHR ''n''] @ ''['' @ [CHR 0x5C, CHR 0x22]
          @ ''```'' @ [CHR 0x5C, CHR 0x22] @ '']'' @ [CHR 0x5C, CHR ''n''] @ ''```'')"
  let ?w = "sample_world None (Inr ?raw)"
  let ?s = "[CHR ''['', CHR 0x22, CHR 0x60, CHR 0x60, CHR 0x60, CHR 0x22, CHR '']'']"
  let ?c = "[CHR ''['', CHR 0x22, CHR 0x22, CHR '']'']"
  have n: "normalize (fenced ?s) = ?c" using normalize_inner_fence_text by simp
  have l: "sample_loads ?c = Inr (JArr [JStr []])" using sample_loads_empty_string by simp
  have e: "sample_loads ?raw = Inr (envelope (JStr (fenced ?s)))"
    using sample_loads_inner_fence_envelope by simp
  have a: "gemini_proxy ?w (Inr sample_payload)
      = (Inr (rows_response (as_list (JArr [JStr []]))),
         [app_request ?w (JStr ''REQKEY'') (JStr ''AAAA'') (JStr ''image/jpeg'')])"
    by (rule app_success [OF sample_app_valid, where t = "fenced ?s"
          and result = "envelope (JStr (fenced ?s))" and raw = ?raw])
      (use e n l in \<open>simp_all add: extract_text_envelope\<close>)
  have b: "do_POST ?w ''/api/gemini'' (Inr sample_body)
      = (rows_response (as_list (JArr [JStr []])),
         [server_request ?w (JStr ''REQKEY'') (JStr ''AAAA'') (JStr ''image/jpeg'')])"
    by (rule server_success [OF sample_server_valid, where t = "fenced ?s"
          and result = "envelope (JStr (fenced ?s))" and raw = ?raw])
      (use e n l in \<open>simp_all add: extract_text_envelope\<close>)
  have f: "sample_loads ?s = Inr (JArr [JStr ''```''])" using sample_loads_fence_string by simp
  from a b e f show ?thesis by simp
qed

text \<open>
  C7, amended: normalization is idempotent on every text, and a text with no fence
  marker and no whitespace at either end is left unchanged; for a JSON array whose
  serialized text contains no \<^verbatim>\<open>```\<close> marker, wrapped in \<^verbatim>\<open>```json\<close> fences, both
  handlers return exactly that array.
\<close>

theorem normalize_idempotent:
  "normalize (normalize t) = normalize t \<and>
   (\<not> sublist ''```'' t \<and> strip t = t \<longrightarrow> normalize t = t) \<and>
   (\<not> sublist ''```'' s \<and> s \<noteq> [] \<and> hd s = CHR ''['' \<and> last s = CHR '']'' \<and>
    json_loads w s = Inr (JArr xs) \<and>
    json_loads w raw = Inr result \<and> extract_text result = Inr (JStr (fenced s)) \<longrightarrow>
      (app_valid w p k i m \<and> urlopen w (app_request w k i m) = Inr raw \<longrightarrow>
         fst (gemini_proxy w (Inr p)) = Inr (rows_response (JArr xs))) \<and>
      (server_valid w body k' i' m' \<and> urlopen w (server_request w k' i' m') = Inr raw \<longrightarrow>
         fst (do_POST w ''/api/gemini'' (Inr body)) = rows_response (JArr xs)))"
proof (intro conjI impI)
  show "normalize (normalize t) = normalize t" by (rule normalize_idem)
next
  assume "\<not> sublist ''```'' t \<and> strip t = t"
  then show "normalize t = t" by (simp add: normalize_clean)
next
  assume h: "\<not> sublist ''```'' s \<and> s \<noteq> [] \<and> hd s = CHR ''['' \<and> last s = CHR '']'' \<and>
    json_loads w s = Inr (JArr xs) \<and>
    json_loads w raw = Inr result \<and> extract_text result = Inr (JStr (fenced s))"
  then have n: "json_loads w (normalize (fenced s)) = Inr (JArr xs)"
    by (simp add: normalize_fenced_array)
  {
    assume "app_valid w p k i m \<and> urlopen w (app_request w k i m) = Inr raw"
    with h n have "gemini_proxy w (Inr p)
        = (Inr (rows_response (as_list (JArr xs))), [app_request w k i m])"
      by (intro app_success [where t = "fenced s" and result = result and raw = raw]) simp_all
    then show "fst (gemini_proxy w (Inr p)) = Inr (rows_response (JArr xs))" by simp
  }
  {
    assume "server_valid w body k' i' m' \<and> urlopen w (server_request w k' i' m') = Inr raw"
    with h n have "do_POST w ''/api/gemini'' (Inr body)
        = (rows_response (as_list (JArr xs)), [server_request w k' i' m'])"
      by (intro server_success [where t = "fenced s" and result = result and raw = raw]) simp_all
    then show "fst (do_POST w ''/api/gemini'' (Inr body)) = rows_response (JArr xs)" by simp
  }
qed

text \<open>C7, an instance: the array \<^verbatim>\<open>[1, 2]\<close> between fences.\<close>

theorem normalize_idempotent_witness:
  "normalize (normalize '' [1, 2] '') = normalize '' [1, 2] '' \<and>
   normalize ''[1, 2]'' = ''[1, 2]'' \<and>
   fst (gemini_proxy
     (sample_world None (Inr (envelope_text (''```json'' @ [CHR 0x5C, CHR ''n''] @ ''[1, 2]''
          @ [CHR 0x5C, CHR ''n''] @ ''```''))))
     (Inr sample_payload))
     = Inr (rows_response (JArr [JInt 1, JInt 2])) \<and>
   fst (do_POST
     (sample_world None (Inr (envelope_text (''```json'' @ [CHR 0x5C, CHR ''n''] @ ''[1, 2]''
          @ [CHR 0x5C, CHR ''n''] @ ''```''))))
     ''/api/gemini'' (Inr sample_body))
     = rows_response (JArr [JInt 1, JInt 2])"
proof -
  let ?raw = "envelope_text (''```json'' @ [CHR 0x5C, CHR ''n''] @ ''[1, 2]''
          @ [CHR 0x5C, CHR ''n''] @ ''```'')"
  let ?w = "sample_world None (Inr ?raw)"
  have c: "\<not> sublist ''```'' ''[1, 2]''" by code_simp
  have d: "strip ''[1, 2]'' = ''[1, 2]''" by code_simp
  have h: "''[1, 2]'' \<noteq> [] \<and> hd ''[1, 2]'' = CHR ''['' \<and> last ''[1, 2]'' = CHR '']'' \<and>
    json_loads ?w ''[1, 2]'' = Inr (JArr [JInt 1, JInt 2]) \<and>
    json_loads ?w ?raw = Inr (envelope (JStr (fenced ''[1, 2]''))) \<and>
    extract_text (envelope (JStr (fenced ''[1, 2]''))) = Inr (JStr (fenced ''[1, 2]''))"
    using sample_loads_array sample_loads_fenced_envelope by (simp add: extract_text_envelope)
  have u: "urlopen ?w req = Inr ?raw" for req by simp
  have one: "normalize (normalize '' [1, 2] '') = normalize '' [1, 2] ''"
    using normalize_idempotent [of "'' [1, 2] ''"] by blast
  from normalize_idempotent [of "''[1, 2]''" "''[1, 2]''" ?w "[JInt 1, JInt 2]" ?raw
      "envelope (JStr (fenced ''[1, 2]''))" sample_payload "JStr ''REQKEY''" "JStr ''AAAA''"
      "JStr ''image/jpeg''" sample_body "JStr ''REQKEY''" "JStr ''AAAA''" "JStr ''image/jpeg''"]
    c d h u sample_app_valid [of "Inr ?raw"] sample_server_valid [of None "Inr ?raw"]
  have "normalize ''[1, 2]'' = ''[1, 2]'' \<and>
    fst (gemini_proxy ?w (Inr sample_payload)) = Inr (rows_response (JArr [JInt 1, JInt 2])) \<and>
    fst (do_POST ?w ''/api/gemini'' (Inr sample_body)) = rows_response (JArr [JInt 1, JInt 2])"
    by blast
  with one show ?thesis by blast
qed

section \<open>One upstream call\<close>

lemma rows_not_error [simp]: "rows_response rows \<noteq> error_response code msg"
  by (simp add: rows_response_def error_response_def)

lemma error_not_rows [simp]: "error_response code msg \<noteq> rows_response rows"
  by (simp add: rows_response_def error_response_def)

lemma rows_response_inject [simp]: "(rows_response a = rows_response b) = (a = b)"
  by (auto simp: rows_response_def)

lemma gemini_proxy_except_shape:
  "(\<exists>code msg. gemini_proxy_except w e = Inr (error_response code msg))
     \<or> gemini_proxy_except w e = Inl UnicodeDecodeError"
  by (cases e) (auto split: option.splits)


lemma app_shape:
  "(\<exists>rows. fst (gemini_proxy w got) = Inr (rows_response rows))
     \<or> (\<exists>code msg. fst (gemini_proxy w got) = Inr (error_response code msg))
     \<or> fst (gemini_proxy w got) = Inl UnicodeDecodeError"
  using gemini_proxy_except_shape [of w]
  by (auto simp: gemini_proxy_def gemini_proxy_try_def Let_def split: sum.splits)









section \<open>The MIME type\<close>

lemma dict_get_with_mime:
  "k \<noteq> ''mimeType'' \<Longrightarrow> dict_get (JObj (kvs @ [(''mimeType'', v)])) k d = dict_get (JObj kvs) k d"
  by (simp add: map_add_def split: option.splits)

lemma dict_get_mime_default:
  "map_of kvs ''mimeType'' = None \<Longrightarrow>
     dict_get (JObj (kvs @ [(''mimeType'', JStr ''image/jpeg'')])) ''mimeType'' (JStr ''image/jpeg'')
       = dict_get (JObj kvs) ''mimeType'' (JStr ''image/jpeg'')"
  by (simp add: map_add_def)

lemma app_api_key_with_mime:
  "app_api_key w (JObj (kvs @ [(''mimeType'', v)])) = app_api_key w (JObj kvs)"
  by (simp add: app_api_key_def dict_get_with_mime del: dict_get.simps split: option.splits)

lemma app_mime_omitted:
  assumes "map_of kvs ''mimeType'' = None" "kvs \<noteq> []"
  shows "gemini_proxy w (Inr (JObj kvs))
           = gemini_proxy w (Inr (JObj (kvs @ [(''mimeType'', JStr ''image/jpeg'')])))"
  using assms
  by (simp add: gemini_proxy_def gemini_proxy_try_def app_api_key_with_mime dict_get_with_mime
      dict_get_mime_default del: dict_get.simps cong: sum.case_cong)

lemma server_mime_omitted:
  assumes "map_of kvs ''mimeType'' = None" "json_loads w body = Inr (JObj kvs)"
    "json_loads w body' = Inr (JObj (kvs @ [(''mimeType'', JStr ''image/jpeg'')]))"
  shows "do_POST w path (Inr body) = do_POST w path (Inr body')"
  using assms
  by (simp add: do_POST_def do_POST_try_def dict_get_with_mime dict_get_mime_default
      del: dict_get.simps cong: sum.case_cong)

lemma data_app_request [simp]: "data (app_request w k i m) = gemini_payload m i 4096"
  by (simp add: app_request_def)

lemma data_server_request [simp]: "data (server_request w k i m) = gemini_payload m i 2048"
  by (simp add: server_request_def)

lemma inline_of_gemini_payload [simp]:
  "inline_mime_type (gemini_payload m i n) = Inr m"
  "inline_image (gemini_payload m i n) = Inr i"
  by (simp_all add: inline_mime_type_def inline_image_def inline_data_def gemini_payload_def)

text \<open>
  C10: when the request body has no field \<^verbatim>\<open>mimeType\<close>, both handlers read the MIME type
  \<^verbatim>\<open>image/jpeg\<close> and proceed as for the same body with \<^verbatim>\<open>"mimeType": "image/jpeg"\<close> added;
  in the payload of the upstream call, \<^verbatim>\<open>inline_data\<close> has that value under
  \<^verbatim>\<open>mime_type\<close>, next to the image under \<^verbatim>\<open>data\<close>.
\<close>

theorem mime_type_default:
  "map_of kvs ''mimeType'' = None \<longrightarrow>
     (app_reads w (JObj kvs) k i m \<longrightarrow> m = JStr ''image/jpeg'') \<and>
     (app_valid w (JObj kvs) k i m \<longrightarrow>
        map data (snd (gemini_proxy w (Inr (JObj kvs))))
          = [gemini_payload (JStr ''image/jpeg'') i 4096] \<and>
        map (\<lambda>r. (inline_mime_type (data r), inline_image (data r)))
            (snd (gemini_proxy w (Inr (JObj kvs))))
          = [(Inr (JStr ''image/jpeg''), Inr i)]) \<and>
     (kvs \<noteq> [] \<longrightarrow>
        gemini_proxy w (Inr (JObj kvs))
          = gemini_proxy w (Inr (JObj (kvs @ [(''mimeType'', JStr ''image/jpeg'')])))) \<and>
     (json_loads w body = Inr (JObj kvs) \<longrightarrow>
        (server_reads w body k' i' m' \<longrightarrow> m' = JStr ''image/jpeg'') \<and>
        (server_valid w body k' i' m' \<longrightarrow>
           map data (snd (do_POST w ''/api/gemini'' (Inr body)))
             = [gemini_payload (JStr ''image/jpeg'') i' 2048] \<and>
           map (\<lambda>r. (inline_mime_type (data r), inline_image (data r)))
               (snd (do_POST w ''/api/gemini'' (Inr body)))
             = [(Inr (JStr ''image/jpeg''), Inr i')]) \<and>
        (json_loads w body' = Inr (JObj (kvs @ [(''mimeType'', JStr ''image/jpeg'')])) \<longrightarrow>
           do_POST w path (Inr body) = do_POST w path (Inr body')))"
proof (intro impI conjI)
  assume n: "map_of kvs ''mimeType'' = None"
  {
    assume "app_reads w (JObj kvs) k i m"
    with n show "m = JStr ''image/jpeg''" by (simp add: app_reads_def)
  }
  {
    assume v: "app_valid w (JObj kvs) k i m"
    with n have e: "m = JStr ''image/jpeg''" by (simp add: app_valid_def app_reads_def)
    with v show "map data (snd (gemini_proxy w (Inr (JObj kvs))))
        = [gemini_payload (JStr ''image/jpeg'') i 4096]"
      by (simp add: app_calls_valid)
    from v e show "map (\<lambda>r. (inline_mime_type (data r), inline_image (data r)))
            (snd (gemini_proxy w (Inr (JObj kvs))))
          = [(Inr (JStr ''image/jpeg''), Inr i)]"
      by (simp add: app_calls_valid)
  }
  {
    assume "kvs \<noteq> []"
    with n show "gemini_proxy w (Inr (JObj kvs))
        = gemini_proxy w (Inr (JObj (kvs @ [(''mimeType'', JStr ''image/jpeg'')])))"
      by (rule app_mime_omitted)
  }
  assume j: "json_loads w body = Inr (JObj kvs)"
  {
    assume "server_reads w body k' i' m'"
    with n j show "m' = JStr ''image/jpeg''" by (simp add: server_reads_def)
  }
  {
    assume v: "server_valid w body k' i' m'"
    with n j have e: "m' = JStr ''image/jpeg''" by (simp add: server_valid_def server_reads_def)
    with v show "map data (snd (do_POST w ''/api/gemini'' (Inr body)))
        = [gemini_payload (JStr ''image/jpeg'') i' 2048]"
      by (simp add: server_calls_valid)
    from v e show "map (\<lambda>r. (inline_mime_type (data r), inline_image (data r)))
               (snd (do_POST w ''/api/gemini'' (Inr body)))
             = [(Inr (JStr ''image/jpeg''), Inr i')]"
      by (simp add: server_calls_valid)
  }
  {
    assume "json_loads w body' = Inr (JObj (kvs @ [(''mimeType'', JStr ''image/jpeg'')]))"
    with n j show "do_POST w path (Inr body) = do_POST w path (Inr body')"
      by (rule server_mime_omitted)
  }
qed

text \<open>C10, an instance: the sample request, which has no \<^verbatim>\<open>mimeType\<close>.\<close>

theorem mime_type_default_witness:
  "map (\<lambda>r. (inline_mime_type (data r), inline_image (data r)))
       (snd (gemini_proxy (sample_world None (Inl (URLError ''timed out''))) (Inr sample_payload)))
     = [(Inr (JStr ''image/jpeg''), Inr (JStr ''AAAA''))] \<and>
   map (\<lambda>r. (inline_mime_type (data r), inline_image (data r)))
       (snd (do_POST (sample_world None (Inl (URLError ''timed out''))) ''/api/gemini''
               (Inr sample_body)))
     = [(Inr (JStr ''image/jpeg''), Inr (JStr ''AAAA''))] \<and>
   map data (snd (gemini_proxy (sample_world None (Inl (URLError ''timed out''))) (Inr sample_payload)))
     = [gemini_payload (JStr ''image/jpeg'') (JStr ''AAAA'') 4096] \<and>
   map data (snd (do_POST (sample_world None (Inl (URLError ''timed out''))) ''/api/gemini''
                    (Inr sample_body)))
     = [gemini_payload (JStr ''image/jpeg'') (JStr ''AAAA'') 2048] \<and>
   gemini_proxy (sample_world None (Inl (URLError ''timed out''))) (Inr sample_payload)
     = gemini_proxy (sample_world None (Inl (URLError ''timed out'')))
         (Inr (JObj [(''apiKey'', JStr ''REQKEY''), (''imageB64'', JStr ''AAAA''),
                     (''mimeType'', JStr ''image/jpeg'')]))"
proof -
  let ?w = "sample_world None (Inl (URLError ''timed out''))"
  let ?kvs = "[(''apiKey'', JStr ''REQKEY''), (''imageB64'', JStr ''AAAA'')]"
  have p: "sample_payload = JObj ?kvs" by (simp add: sample_payload_def)
  have n: "map_of ?kvs ''mimeType'' = None" by simp
  have j: "json_loads ?w sample_body = Inr (JObj ?kvs)"
    using sample_loads_body by (simp add: p)
  note th = mime_type_default [of ?kvs ?w "JStr ''REQKEY''" "JStr ''AAAA''" "JStr ''image/jpeg''"
      sample_body "JStr ''REQKEY''" "JStr ''AAAA''" "JStr ''image/jpeg''"]
  have a: "app_valid ?w (JObj ?kvs) (JStr ''REQKEY'') (JStr ''AAAA'') (JStr ''image/jpeg'')"
    using sample_app_valid [of "Inl (URLError ''timed out'')"] by (simp add: p)
  note b = sample_server_valid [of None "Inl (URLError ''timed out'')"]
  from th n j a have "map data (snd (gemini_proxy ?w (Inr (JObj ?kvs))))
      = [gemini_payload (JStr ''image/jpeg'') (JStr ''AAAA'') 4096]"
    and "map (\<lambda>r. (inline_mime_type (data r), inline_image (data r)))
            (snd (gemini_proxy ?w (Inr (JObj ?kvs))))
          = [(Inr (JStr ''image/jpeg''), Inr (JStr ''AAAA''))]"
    by blast+
  moreover from th n j b have "map data (snd (do_POST ?w ''/api/gemini'' (Inr sample_body)))
      = [gemini_payload (JStr ''image/jpeg'') (JStr ''AAAA'') 2048]"
    and "map (\<lambda>r. (inline_mime_type (data r), inline_image (data r)))
            (snd (do_POST ?w ''/api/gemini'' (Inr sample_body)))
          = [(Inr (JStr ''image/jpeg''), Inr (JStr ''AAAA''))]"
    by blast+
  moreover from th n have "gemini_proxy ?w (Inr (JObj ?kvs))
      = gemini_proxy ?w (Inr (JObj (?kvs @ [(''mimeType'', JStr ''image/jpeg'')])))"
    by blast
  ultimately show ?thesis unfolding p by simp
qed

end
